theory Spec2Isabelle
  imports Main
begin

section \<open>Python strings\<close>

text \<open>
  Python strings are modelled as \<open>string\<close>. The case mapping and the whitespace class
  are those of Python's \<open>str.lower\<close> and \<open>str.isspace\<close> restricted to the characters a
  \<open>char\<close> can hold.
\<close>

definition upper_letters :: string where
  "upper_letters = ''ABCDEFGHIJKLMNOPQRSTUVWXYZ''"

definition lower_letters :: string where
  "lower_letters = ''abcdefghijklmnopqrstuvwxyz''"

definition lower_char :: "char \<Rightarrow> char" where
  "lower_char c = (case map_of (zip upper_letters lower_letters) c of
                     Some d \<Rightarrow> d | None \<Rightarrow> c)"

definition lower :: "string \<Rightarrow> string" where
  "lower s = map lower_char s"

text \<open>\<open>startswith p s\<close> is Python's \<open>s.startswith(p)\<close>.\<close>

fun startswith :: "string \<Rightarrow> string \<Rightarrow> bool" where
  "startswith [] s = True"
| "startswith (p # ps) [] = False"
| "startswith (p # ps) (c # cs) = (p = c \<and> startswith ps cs)"

text \<open>\<open>py_in k s\<close> is Python's substring test \<open>k in s\<close>.\<close>

fun py_in :: "string \<Rightarrow> string \<Rightarrow> bool" where
  "py_in k [] = (k = [])"
| "py_in k (c # cs) = (startswith k (c # cs) \<or> py_in k cs)"

section \<open>Retrieval planning\<close>

text \<open>
  \<open>RAGService.query\<close>, lines 50 to 56: the keyword list of the source and the adjustment
  of \<open>top_k\<close> for broad queries.
\<close>

definition broad_keywords :: "string list" where
  "broad_keywords = [''summarize'', ''summary'', ''overview'', ''describe'', ''what is'']"

definition is_broad :: "string \<Rightarrow> bool" where
  "is_broad query = list_ex (\<lambda>keyword. py_in keyword (lower query)) broad_keywords"

definition adjusted_top_k :: "string \<Rightarrow> int \<Rightarrow> int" where
  "adjusted_top_k query top_k = (if is_broad query then max top_k 10 else top_k)"

text \<open>
  Python truthiness of \<open>Optional[List[str]]\<close>: \<open>None\<close> and the empty list are false.
\<close>

fun truthy_ids :: "string list option \<Rightarrow> bool" where
  "truthy_ids None = False"
| "truthy_ids (Some ids) = (ids \<noteq> [])"

text \<open>
  \<open>chat_with_fund\<close>, lines 304 to 311: the adjustment by the number of documents of the
  fund; the result is the \<open>top_k\<close> handed to \<open>RAGService.query\<close>.
\<close>

definition chat_adjusted_top_k :: "int \<Rightarrow> nat \<Rightarrow> string list option \<Rightarrow> int" where
  "chat_adjusted_top_k top_k doc_count document_ids =
     (if doc_count > 1 \<and> \<not> truthy_ids document_ids
      then max top_k (min 15 (5 * int doc_count))
      else top_k)"

text \<open>The count the retriever of a chat request is configured with.\<close>

definition chat_effective_k :: "string \<Rightarrow> int \<Rightarrow> nat \<Rightarrow> string list option \<Rightarrow> int" where
  "chat_effective_k message top_k doc_count document_ids =
     adjusted_top_k message (chat_adjusted_top_k top_k doc_count document_ids)"

section \<open>Metadata dictionaries and retrieved chunks\<close>

text \<open>
  A metadata dictionary maps field names to values; the values the repository stores are
  strings and integers. \<open>py_str\<close> is the text an f-string puts for a value.
\<close>

datatype mval = MStr string | MInt int

type_synonym metadata = "string \<rightharpoonup> mval"

definition digits :: string where
  "digits = ''0123456789''"

function str_of_nat :: "nat \<Rightarrow> string" where
  "str_of_nat n = (if n < 10 then [digits ! n]
                   else str_of_nat (n div 10) @ [digits ! (n mod 10)])"
  by pat_completeness auto
termination
  by (relation "measure id") auto

definition str_of_int :: "int \<Rightarrow> string" where
  "str_of_int i = (if i < 0 then CHR ''-'' # str_of_nat (nat (- i)) else str_of_nat (nat i))"

fun py_str :: "mval \<Rightarrow> string" where
  "py_str (MStr s) = s"
| "py_str (MInt i) = str_of_int i"

text \<open>\<open>get md k d\<close> is \<open>md.get(k, d)\<close>.\<close>

definition get :: "metadata \<Rightarrow> string \<Rightarrow> mval \<Rightarrow> mval" where
  "get md k d = (case md k of Some v \<Rightarrow> v | None \<Rightarrow> d)"

text \<open>A LangChain \<open>Document\<close>: the chunk text and its metadata.\<close>

record document =
  page_content :: string
  metadata :: metadata

datatype exn =
    UnboundLocalError
  | AttributeError
  | Exception string
  | HTTPException nat string

section \<open>The state of the service and its collaborators\<close>

text \<open>
  The filter dictionary and the retriever configuration built by \<open>RAGService.query\<close>.
\<close>

record filter_dict =
  filter_fund_id :: string
  filter_doc_id_in :: "string list option"

record retriever =
  search_k :: int
  search_filter :: filter_dict

record splitter_config =
  chunk_size :: nat
  chunk_overlap :: nat
  separators :: "string list"
  keep_separator :: bool

text \<open>A fund and a document record of the MongoDB collections.\<close>

record fund =
  fund_oid :: string
  fund_name :: string
  summary :: "string option"
  document_count :: "int option"
  created_at :: nat
  updated_at :: nat

record doc_record =
  doc_oid :: string
  doc_fund_id :: string
  doc_file_name :: string
  doc_file_type :: string
  doc_doc_id :: string
  doc_size_bytes :: nat
  doc_created_at :: nat

text \<open>
  The mutable state: the content of the vector index (\<open>None\<close> when
  \<open>_load_or_create_vectordb\<close> returned \<open>None\<close>), the two MongoDB collections, whether
  the MongoDB connection was made (\<open>self.db is not None\<close>), the clock read by
  \<open>utcnow\<close>, and how many identifiers have been drawn.
\<close>

record system =
  vectordb :: "document list option"
  funds :: "fund list"
  documents :: "doc_record list"
  db_connected :: bool
  clock :: nat
  ids_drawn :: nat

text \<open>
  The libraries and services the repository calls and does not contain: the similarity
  search of the index, the image lookup on disk, the \<open>RetrievalQA\<close> chain with its language
  model, the text splitter, whether the index accepts a batch, \<open>uuid4\<close>, the identifier
  MongoDB gives an inserted document, and the parser of \<open>ObjectId\<close> (\<open>None\<close> when it
  raises).
\<close>

record env =
  similarity_search :: "document list \<Rightarrow> string \<Rightarrow> int \<Rightarrow> filter_dict \<Rightarrow> document list"
  get_image_data :: "mval \<Rightarrow> string option"
  chain_invoke :: "document list \<Rightarrow> retriever \<Rightarrow> string \<Rightarrow> string \<Rightarrow> exn + string"
  create_documents :: "splitter_config \<Rightarrow> string \<Rightarrow> string list"
  add_documents_ok :: "document list \<Rightarrow> bool"
  uuid4 :: "nat \<Rightarrow> string"
  inserted_id :: "nat \<Rightarrow> string"
  ObjectId :: "string \<Rightarrow> string option"

section \<open>RAGService.query\<close>

text \<open>The prompt template of \<open>RAGService.__init__\<close>.\<close>

definition qa_prompt :: string where
  \<open>qa_prompt =
    ''You are a helpful assistant that answers questions based on the provided context from multiple documents.\<newline>'' @
    ''\<newline>'' @
    ''The context below may contain content from several different documents related to the same fund.\<newline>'' @
    ''\<newline>'' @
    ''Context: {context}\<newline>'' @
    ''\<newline>'' @
    ''Using ONLY the information in the context above, answer the following question thoroughly and accurately. \<newline>'' @
    ''If information is found in multiple documents, synthesize it into a comprehensive answer.\<newline>'' @
    ''If the information isn't in the context, say "I don't have enough information to answer this question."\<newline>'' @
    ''\<newline>'' @
    ''            Question: {question}\<newline>'' @
    ''            ''\<close>

text \<open>Lines 58 to 61: the filter.\<close>

definition make_filter :: "string \<Rightarrow> string list option \<Rightarrow> filter_dict" where
  "make_filter fid document_ids =
     \<lparr>filter_fund_id = fid, filter_doc_id_in = (if truthy_ids document_ids then document_ids else None)\<rparr>"

text \<open>
  Lines 102 to 107: a source of type image with an \<open>image_path\<close> gets its image data,
  when the lookup returns a non-empty string. The sources are the metadata dictionaries of
  the retrieved documents themselves, so the documents see the update.
\<close>

definition add_image :: "env \<Rightarrow> metadata \<Rightarrow> metadata" where
  "add_image e source =
     (if source ''type'' = Some (MStr ''image'')
      then (case source ''image_path'' of
              None \<Rightarrow> source
            | Some image_path \<Rightarrow>
                (case get_image_data e image_path of
                   None \<Rightarrow> source
                 | Some image_data \<Rightarrow>
                     if image_data \<noteq> [] then source(''image_base64'' \<mapsto> MStr image_data)
                     else source))
      else source)"

definition add_images :: "env \<Rightarrow> document list \<Rightarrow> document list" where
  "add_images e docs = map (\<lambda>d. d\<lparr>metadata := add_image e (metadata d)\<rparr>) docs"

text \<open>
  Lines 110 to 115: \<open>docs_by_source\<close> is a dictionary, which keeps its keys in the order
  of their insertion; it is an association list here.
\<close>

definition source_name :: "document \<Rightarrow> mval" where
  "source_name d = get (metadata d) ''file_name'' (MStr ''Unknown'')"

fun append_to :: "(mval \<times> document list) list \<Rightarrow> mval \<Rightarrow> document
                  \<Rightarrow> (mval \<times> document list) list" where
  "append_to [] name d = [(name, [d])]"
| "append_to ((n, ds) # rest) name d =
     (if n = name then (n, ds @ [d]) # rest else (n, ds) # append_to rest name d)"

definition docs_by_source :: "document list \<Rightarrow> (mval \<times> document list) list" where
  "docs_by_source docs = foldl (\<lambda>acc d. append_to acc (source_name d) d) [] docs"

text \<open>
  Lines 118 to 133. The inner loop only assigns \<open>doc_type\<close>, \<open>page\<close>, \<open>chunk\<close> and the
  loop variable \<open>doc\<close>; the \<open>if\<close> that appends the rendering is indented as a statement of
  the outer loop and runs once per source, after the inner loop, on the values the inner
  loop left. The locals survive from one source to the next; before the first assignment
  they are unbound.
\<close>

record locals =
  l_doc_type :: mval
  l_page :: mval
  l_chunk :: mval
  l_doc :: document

definition header :: "mval \<Rightarrow> string" where
  "header name = ''\<newline>--- DOCUMENT: '' @ py_str name @ '' ---\<newline>''"

definition locals_of :: "document \<Rightarrow> locals" where
  "locals_of d =
     \<lparr>l_doc_type = get (metadata d) ''type'' (MStr ''text''),
      l_page = get (metadata d) ''page_number'' (MStr ''Unknown page''),
      l_chunk = get (metadata d) ''chunk'' (MStr ''Unknown chunk''),
      l_doc = d\<rparr>"

definition assign_locals :: "locals option \<Rightarrow> document \<Rightarrow> locals option" where
  "assign_locals l d = Some (locals_of d)"

definition render :: "locals \<Rightarrow> string" where
  "render l =
     (if l_doc_type l = MStr ''table''
      then ''[TABLE from page '' @ py_str (l_page l) @ '', chunk '' @ py_str (l_chunk l) @ '']:\<newline>''
             @ page_content (l_doc l)
      else if l_doc_type l = MStr ''image''
      then ''[IMAGE from page '' @ py_str (l_page l) @ '', chunk '' @ py_str (l_chunk l) @ '']''
      else ''[CONTENT from page '' @ py_str (l_page l) @ '', chunk '' @ py_str (l_chunk l) @ '']:\<newline>''
             @ page_content (l_doc l))"

fun format_sources :: "(mval \<times> document list) list \<Rightarrow> locals option \<Rightarrow> string list
                       \<Rightarrow> exn + string list" where
  "format_sources [] l formatted = Inr formatted"
| "format_sources ((name, source_docs) # rest) l formatted =
     (case foldl assign_locals l source_docs of
        None \<Rightarrow> Inl UnboundLocalError
      | Some l' \<Rightarrow> format_sources rest (Some l') (formatted @ [header name, render l']))"

definition formatted_docs :: "document list \<Rightarrow> exn + string list" where
  "formatted_docs docs = format_sources (docs_by_source docs) None []"

text \<open>\<open>join sep xs\<close> is \<open>sep.join(xs)\<close>.\<close>

fun join :: "string \<Rightarrow> string list \<Rightarrow> string" where
  "join sep [] = []"
| "join sep [x] = x"
| "join sep (x # y # ys) = x @ sep @ join sep (y # ys)"

text \<open>Lines 153 to 159: the sources without duplicates.\<close>

definition get_str :: "metadata \<Rightarrow> string \<Rightarrow> string \<Rightarrow> string" where
  "get_str md key d = py_str (get md key (MStr d))"

definition source_id :: "metadata \<Rightarrow> string" where
  "source_id source =
     get_str source ''file_name'' [] @ ''-'' @ get_str source ''page_number'' [] @ ''-''
       @ get_str source ''type'' []"

definition unique_step :: "metadata list \<times> string set \<Rightarrow> metadata \<Rightarrow> metadata list \<times> string set" where
  "unique_step st source =
     (if source_id source \<notin> snd st
      then (fst st @ [source], insert (source_id source) (snd st))
      else st)"

definition unique_sources :: "metadata list \<Rightarrow> metadata list" where
  "unique_sources sources = fst (foldl unique_step ([], {}) sources)"

text \<open>
  The locals of \<open>query\<close> when the chain is built: the retriever, the retrieved documents,
  the sources and the context string.
\<close>

record query_locals =
  q_retriever :: retriever
  q_docs :: "document list"
  q_sources :: "metadata list"
  q_context :: string

text \<open>
  Lines 139 to 163: the chain gets the language model, the retriever and the prompt, and
  is invoked on the query; the result is the answer with the sources without duplicates.
\<close>

definition answer_phase :: "env \<Rightarrow> document list \<Rightarrow> string \<Rightarrow> query_locals
                            \<Rightarrow> exn + string \<times> metadata list" where
  "answer_phase e index query_text l =
     (case chain_invoke e index (q_retriever l) qa_prompt query_text of
        Inl err \<Rightarrow> Inl err
      | Inr answer \<Rightarrow> Inr (answer, unique_sources (q_sources l)))"

text \<open>
  Lines 78 to 135: the locals, from the retrieval to the context string. The search of
  lines 65 to 76 with the empty query is only printed and has no part in the result.
\<close>

definition context_phase :: "env \<Rightarrow> document list \<Rightarrow> string \<Rightarrow> string \<Rightarrow> int
                             \<Rightarrow> string list option \<Rightarrow> exn + query_locals" where
  "context_phase e index query_text fid top_k document_ids =
     (let r = \<lparr>search_k = adjusted_top_k query_text top_k,
                search_filter = make_filter fid document_ids\<rparr>;
          docs = add_images e (similarity_search e index query_text (search_k r) (search_filter r))
      in case formatted_docs docs of
           Inl err \<Rightarrow> Inl err
         | Inr fd \<Rightarrow>
             Inr \<lparr>q_retriever = r, q_docs = docs, q_sources = map metadata docs,
                  q_context = join ''\<newline>\<newline>'' fd\<rparr>)"

definition query :: "env \<Rightarrow> system \<Rightarrow> string \<Rightarrow> string \<Rightarrow> int \<Rightarrow> string list option
                     \<Rightarrow> exn + string \<times> metadata list" where
  "query e s query_text fid top_k document_ids =
     (case vectordb s of
        None \<Rightarrow> Inl AttributeError
      | Some index \<Rightarrow>
          (case context_phase e index query_text fid top_k document_ids of
             Inl err \<Rightarrow> Inl err
           | Inr l \<Rightarrow> answer_phase e index query_text l))"

section \<open>DocumentProcessor\<close>

text \<open>
  \<open>isspace\<close> holds of the characters \<open>str.strip\<close> removes: a \<open>char\<close> stands for the code
  point of the same number, and these are the whitespace code points below 256.
\<close>

definition isspace :: "char \<Rightarrow> bool" where
  "isspace c = (c \<in> set [CHR 0x09, CHR 0x0A, CHR 0x0B, CHR 0x0C, CHR 0x0D, CHR 0x1C, CHR 0x1D,
                          CHR 0x1E, CHR 0x1F, CHR 0x20, CHR 0x85, CHR 0xA0])"

definition strip :: "string \<Rightarrow> string" where
  "strip text = rev (dropWhile isspace (rev (dropWhile isspace text)))"

text \<open>\<open>_add_to_pinecone\<close>, lines 164 to 169: the configuration of the splitter.\<close>

definition text_splitter :: splitter_config where
  "text_splitter = \<lparr>chunk_size = 1000, chunk_overlap = 200,
                     separators = [''\<newline>\<newline>'', ''\<newline>'', '' '', ''''],
                     keep_separator = True\<rparr>"

text \<open>Lines 175 to 187: the metadata of the chunk with index \<open>i\<close> among \<open>n_total\<close>.\<close>

definition chunk_metadata :: "metadata \<Rightarrow> string \<Rightarrow> nat \<Rightarrow> nat \<Rightarrow> metadata" where
  "chunk_metadata md doc_id i n_total =
     md(''chunk_id'' \<mapsto> MStr (doc_id @ ''_'' @ str_of_nat i),
        ''chunk'' \<mapsto> MInt (int i),
          ''total_chunks'' \<mapsto> MInt (int n_total),
        ''doc_id'' \<mapsto> MStr doc_id,
        ''file_name'' \<mapsto> get md ''file_name'' (MStr ''Unknown''))"

definition with_metadata :: "metadata \<Rightarrow> string \<Rightarrow> string list \<Rightarrow> document list" where
  "with_metadata md doc_id docs =
     map (\<lambda>(i, content). \<lparr>page_content = content,
                            metadata = chunk_metadata md doc_id i (length docs)\<rparr>)
         (enumerate 0 docs)"

text \<open>
  \<open>_add_to_pinecone\<close>: one \<open>uuid4\<close> is drawn, the text is split, the chunks get their
  metadata and go to the index in one batch. Without an index, or when the index refuses
  the batch, the exception is raised again after it is printed.
\<close>

definition add_to_pinecone :: "env \<Rightarrow> system \<Rightarrow> string \<Rightarrow> metadata \<Rightarrow> (exn + string) \<times> system" where
  "add_to_pinecone e s text md =
     (let doc_id = uuid4 e (ids_drawn s);
          s1 = s\<lparr>ids_drawn := Suc (ids_drawn s)\<rparr>;
          docs = with_metadata md doc_id (create_documents e text_splitter text)
      in case vectordb s1 of
           None \<Rightarrow> (Inl (Exception ''Vector database not initialized''), s1)
         | Some index \<Rightarrow>
             if add_documents_ok e docs
             then (Inr doc_id, s1\<lparr>vectordb := Some (index @ docs)\<rparr>)
             else (Inl (Exception ''add_documents''), s1))"

section \<open>MongoDBService\<close>

text \<open>
  The collection operations of MongoDB used by the service: \<open>update_one\<close> and
  \<open>delete_one\<close> act on the first match, \<open>delete_many\<close> on all; \<open>find_one\<close> is
  \<open>find\<close>.
\<close>

fun update_one :: "('a \<Rightarrow> bool) \<Rightarrow> ('a \<Rightarrow> 'a) \<Rightarrow> 'a list \<Rightarrow> 'a list" where
  "update_one P g [] = []"
| "update_one P g (x # xs) = (if P x then g x # xs else x # update_one P g xs)"

fun delete_one :: "('a \<Rightarrow> bool) \<Rightarrow> 'a list \<Rightarrow> 'a list" where
  "delete_one P [] = []"
| "delete_one P (x # xs) = (if P x then xs else x # delete_one P xs)"

definition delete_many :: "('a \<Rightarrow> bool) \<Rightarrow> 'a list \<Rightarrow> 'a list" where
  "delete_many P xs = filter (\<lambda>x. \<not> P x) xs"

definition list_funds :: "system \<Rightarrow> fund list" where
  "list_funds s = (if \<not> db_connected s then [] else funds s)"

definition get_fund :: "env \<Rightarrow> system \<Rightarrow> string \<Rightarrow> fund option" where
  "get_fund e s fid =
     (if \<not> db_connected s then None
      else case ObjectId e fid of
             None \<Rightarrow> None
           | Some object_id \<Rightarrow> find (\<lambda>f. fund_oid f = object_id) (funds s))"

text \<open>\<open>$inc\<close> on a field that is missing sets it to the increment.\<close>

definition inc_document_count :: "fund \<Rightarrow> fund" where
  "inc_document_count f =
     f\<lparr>document_count := Some (case document_count f of None \<Rightarrow> 1 | Some c \<Rightarrow> c + 1)\<rparr>"

record doc_data =
  data_file_name :: string
  data_file_type :: string
  data_doc_id :: string
  data_size_bytes :: nat

definition add_document_to_fund :: "env \<Rightarrow> system \<Rightarrow> string \<Rightarrow> doc_data
                                    \<Rightarrow> string option \<times> system" where
  "add_document_to_fund e s fid data =
     (if \<not> db_connected s then (None, s)
      else
        let result = inserted_id e (ids_drawn s);
            s1 = s\<lparr>documents := documents s @
                      [\<lparr>doc_oid = result, doc_fund_id = fid,
                        doc_file_name = data_file_name data, doc_file_type = data_file_type data,
                        doc_doc_id = data_doc_id data, doc_size_bytes = data_size_bytes data,
                        doc_created_at = clock s\<rparr>],
                    ids_drawn := Suc (ids_drawn s)\<rparr>
        in case ObjectId e fid of
             None \<Rightarrow> (None, s1)
           | Some object_id \<Rightarrow>
               (Some result,
                s1\<lparr>funds := update_one (\<lambda>f. fund_oid f = object_id) inc_document_count
                               (funds s1)\<rparr>))"

text \<open>
  \<open>modified_count\<close> counts the documents the update changed, so \<open>update_fund_summary\<close>
  returns true when the fund exists and its summary or its \<open>updated_at\<close> were different.
\<close>

definition set_summary :: "string \<Rightarrow> nat \<Rightarrow> fund \<Rightarrow> fund" where
  "set_summary text now f = f\<lparr>summary := Some text, updated_at := now\<rparr>"

definition update_fund_summary :: "env \<Rightarrow> system \<Rightarrow> string \<Rightarrow> string \<Rightarrow> bool \<times> system" where
  "update_fund_summary e s fid text =
     (if \<not> db_connected s then (False, s)
      else case ObjectId e fid of
             None \<Rightarrow> (False, s)
           | Some object_id \<Rightarrow>
               (case find (\<lambda>f. fund_oid f = object_id) (funds s) of
                  None \<Rightarrow> (False, s)
                | Some f \<Rightarrow>
                    (set_summary text (clock s) f \<noteq> f,
                     s\<lparr>funds := update_one (\<lambda>f. fund_oid f = object_id)
                                    (set_summary text (clock s)) (funds s)\<rparr>)))"

definition get_fund_documents :: "system \<Rightarrow> string \<Rightarrow> doc_record list" where
  "get_fund_documents s fid =
     (if \<not> db_connected s then [] else filter (\<lambda>d. doc_fund_id d = fid) (documents s))"

text \<open>
  \<open>MongoDBService.delete_fund\<close>: the identifier is parsed first; then the documents of the
  fund are deleted, then the fund, and the result says whether a fund was deleted. The
  vector index is not among the things it touches.
\<close>

definition delete_fund :: "env \<Rightarrow> system \<Rightarrow> string \<Rightarrow> bool \<times> system" where
  "delete_fund e s fid =
     (if \<not> db_connected s then (False, s)
      else case ObjectId e fid of
             None \<Rightarrow> (False, s)
           | Some object_id \<Rightarrow>
               let s1 = s\<lparr>documents := delete_many (\<lambda>d. doc_fund_id d = fid) (documents s)\<rparr>
               in (list_ex (\<lambda>f. fund_oid f = object_id) (funds s1),
                   s1\<lparr>funds := delete_one (\<lambda>f. fund_oid f = object_id) (funds s1)\<rparr>))"

section \<open>DocumentProcessor.process_file\<close>

text \<open>
  What \<open>process_file\<close> has of a file once it is read: the base name, the lower-cased
  extension, the extracted text (\<open>None\<close> when reading or extraction raised) and the size.
\<close>

record file_input =
  in_file_name :: string
  in_file_extension :: string
  in_text :: "string option"
  in_size_bytes :: nat

definition file_type_of :: "string \<Rightarrow> string" where
  "file_type_of file_extension = filter (\<lambda>c. c \<noteq> CHR ''.'') file_extension"

text \<open>The metadata of lines 251 to 256; the clock value stands for its ISO text.\<close>

definition file_metadata :: "system \<Rightarrow> string \<Rightarrow> file_input \<Rightarrow> metadata" where
  "file_metadata s fid file =
     [''file_name'' \<mapsto> MStr (in_file_name file),
      ''file_type'' \<mapsto> MStr (file_type_of (in_file_extension file)),
      ''fund_id'' \<mapsto> MStr fid,
      ''created_at'' \<mapsto> MStr (str_of_nat (clock s))]"

definition process_file :: "env \<Rightarrow> system \<Rightarrow> file_input \<Rightarrow> string \<Rightarrow> bool \<times> system" where
  "process_file e s file fid =
     (case in_text file of
        None \<Rightarrow> (False, s)
      | Some text \<Rightarrow>
          if text = [] \<or> strip text = [] then (False, s)
          else
            (case add_to_pinecone e s text (file_metadata s fid file) of
               (Inl err, s1) \<Rightarrow> (False, s1)
             | (Inr doc_id, s1) \<Rightarrow>
                 (True,
                  snd (add_document_to_fund e s1 fid
                         \<lparr>data_file_name = in_file_name file,
                          data_file_type = file_type_of (in_file_extension file),
                          data_doc_id = doc_id,
                          data_size_bytes = in_size_bytes file\<rparr>))))"

section \<open>The endpoints of main.py\<close>

text \<open>\<open>get_fund\<close>, line 235: whether a summary is generated.\<close>

definition stored_count :: "fund \<Rightarrow> int" where
  "stored_count f = (case document_count f of None \<Rightarrow> 0 | Some c \<Rightarrow> c)"

definition needs_summary :: "fund \<Rightarrow> nat \<Rightarrow> bool" where
  "needs_summary f n =
     (summary f = Some ''Empty'' \<or> (stored_count f \<noteq> int n \<and> stored_count f > 0))"

definition summary_query :: "nat \<Rightarrow> string" where
  "summary_query n =
     (if n > 1
      then ''Create a comprehensive summary of this fund that covers all '' @ str_of_nat n
             @ '' documents. Include key information from each document.''
      else ''Provide a good summary of this fund based on the available document.'')"

definition not_enough_information :: string where
  \<open>not_enough_information = ''I don't have enough information to answer this question.''\<close>

text \<open>
  Lines 237 to 260: the generation. An exception of the query is printed and dropped. The
  result is the fund the rest of the endpoint goes on with (\<open>None\<close> when the fund could
  not be read again after the update) and the new state.
\<close>

definition generate_summary :: "env \<Rightarrow> system \<Rightarrow> string \<Rightarrow> fund \<Rightarrow> nat \<Rightarrow> fund option \<times> system" where
  "generate_summary e s fid f n =
     (case query e s (summary_query n) fid 10 None of
        Inl err \<Rightarrow> (Some f, s)
      | Inr (generated_summary, sources) \<Rightarrow>
          if generated_summary \<noteq> [] \<and> generated_summary \<noteq> not_enough_information
          then (case update_fund_summary e s fid generated_summary of
                  (True, s1) \<Rightarrow> (get_fund e s1 fid, s1)
                | (False, s1) \<Rightarrow> (Some f, s1))
          else (Some f, s))"

definition summary_phase :: "env \<Rightarrow> system \<Rightarrow> string \<Rightarrow> fund \<Rightarrow> nat \<Rightarrow> fund option \<times> system" where
  "summary_phase e s fid f n =
     (if needs_summary f n then generate_summary e s fid f n else (Some f, s))"

record document_info =
  info_document_id :: string
  info_file_name :: string
  info_file_type :: string
  info_created_at :: nat

record fund_response =
  r_fund_id :: string
  r_fund_name :: string
  r_summary :: string
  r_created_at :: nat
  r_updated_at :: nat
  r_document_count :: int
  r_documents :: "document_info list"

definition document_list :: "doc_record list \<Rightarrow> document_info list" where
  "document_list docs =
     map (\<lambda>d. \<lparr>info_document_id = doc_oid d, info_file_name = doc_file_name d,
               info_file_type = doc_file_type d, info_created_at = doc_created_at d\<rparr>) docs"

definition fund_not_found :: "string \<Rightarrow> exn" where
  "fund_not_found fid = HTTPException 404 (''Fund '' @ fid @ '' not found'')"

text \<open>
  The endpoint \<open>get_fund\<close>: the fund, its documents, the summary when one is needed, the
  stored count set to the number of documents, the response.
\<close>

definition get_fund_endpoint :: "env \<Rightarrow> system \<Rightarrow> string \<Rightarrow> (exn + fund_response) \<times> system" where
  "get_fund_endpoint e s fid =
     (case get_fund e s fid of
        None \<Rightarrow> (Inl (fund_not_found fid), s)
      | Some f0 \<Rightarrow>
          let docs = document_list (get_fund_documents s fid);
              n = length docs
          in case summary_phase e s fid f0 n of
               (None, s1) \<Rightarrow>
                 (Inl (HTTPException 500 ([CHR 0x27] @ ''NoneType'' @ [CHR 0x27]
                        @ '' object has no attribute '' @ [CHR 0x27] @ ''copy'' @ [CHR 0x27])), s1)
             | (Some f, s1) \<Rightarrow>
                 (Inr \<lparr>r_fund_id = fund_oid f, r_fund_name = fund_name f,
                       r_summary = (case summary f of None \<Rightarrow> ''No summary available''
                                    | Some text \<Rightarrow> text),
                       r_created_at = created_at f, r_updated_at = updated_at f,
                       r_document_count = int n, r_documents = docs\<rparr>,
                  if stored_count f \<noteq> int n
                  then s1\<lparr>funds := update_one (\<lambda>g. fund_oid g = fund_oid f)
                                      (\<lambda>g. g\<lparr>document_count := Some (int n)\<rparr>) (funds s1)\<rparr>
                  else s1))"

text \<open>The endpoint \<open>delete_fund\<close>.\<close>

definition delete_fund_endpoint :: "env \<Rightarrow> system \<Rightarrow> string \<Rightarrow> (exn + string) \<times> system" where
  "delete_fund_endpoint e s fid =
     (case get_fund e s fid of
        None \<Rightarrow> (Inl (fund_not_found fid), s)
      | Some f \<Rightarrow>
          (case delete_fund e s fid of
             (True, s1) \<Rightarrow> (Inr (''Fund '' @ fid @ '' deleted successfully''), s1)
           | (False, s1) \<Rightarrow> (Inl (HTTPException 500 ''Failed to delete fund''), s1)))"

section \<open>Notions used to state the properties\<close>

text \<open>
  The distinct elements of a list in the order of their first occurrence.
\<close>

definition first_seen :: "'a list \<Rightarrow> 'a list" where
  "first_seen xs = rev (remdups (rev xs))"

text \<open>
  The identity key as the specification writes it, with \<open>|\<close> between the fields; the
  key of the source, \<open>source_id\<close>, puts \<open>-\<close> there.
\<close>

definition spec_identity_key :: "metadata \<Rightarrow> string" where
  "spec_identity_key source =
     get_str source ''file_name'' [] @ ''|'' @ get_str source ''page_number'' [] @ ''|''
       @ get_str source ''type'' []"

text \<open>
  The condition for a new summary as the specification writes it, with the number of
  documents found, \<open>n\<close>, required to be positive; \<open>needs_summary\<close> is the condition of
  the source.
\<close>

definition spec_needs_summary :: "fund \<Rightarrow> nat \<Rightarrow> bool" where
  "spec_needs_summary f n =
     (summary f = Some ''Empty'' \<or> (stored_count f \<noteq> int n \<and> n > 0))"

section \<open>Concrete inputs\<close>

text \<open>Two chunks of one file and a chunk of another, as the retriever returns them.\<close>

definition chunk_first :: document where
  "chunk_first = \<lparr>page_content = ''Revenue grew in Q1.'',
     metadata = [''file_name'' \<mapsto> MStr ''report.txt'', ''chunk'' \<mapsto> MInt 0]\<rparr>"

definition chunk_second :: document where
  "chunk_second = \<lparr>page_content = ''Costs fell in Q1.'',
     metadata = [''file_name'' \<mapsto> MStr ''report.txt'', ''chunk'' \<mapsto> MInt 1]\<rparr>"

definition chunk_other :: document where
  "chunk_other = \<lparr>page_content = ''Fees are two percent.'',
     metadata = [''file_name'' \<mapsto> MStr ''terms.txt'', ''chunk'' \<mapsto> MInt 0]\<rparr>"

text \<open>
  Two sources: page 2 of the file \<open>a-1\<close>, and the pages 1-2 of the file \<open>a\<close>.
\<close>

definition source_page_two :: metadata where
  "source_page_two = [''file_name'' \<mapsto> MStr ''a-1'', ''page_number'' \<mapsto> MStr ''2'',
                      ''type'' \<mapsto> MStr ''text'']"

definition source_page_range :: metadata where
  "source_page_range = [''file_name'' \<mapsto> MStr ''a'', ''page_number'' \<mapsto> MStr ''1-2'',
                        ''type'' \<mapsto> MStr ''text'']"

text \<open>Collaborators that always succeed, and a state with the three chunks indexed.\<close>

definition example_env :: env where
  "example_env =
     \<lparr>similarity_search = (\<lambda>index q n f. take (nat n) index),
      get_image_data = (\<lambda>p. None),
      chain_invoke = (\<lambda>index r prompt q. Inr ''Revenue grew.''),
      create_documents = (\<lambda>cfg text. [text]),
      add_documents_ok = (\<lambda>batch. True),
      uuid4 = (\<lambda>n. ''uuid-'' @ str_of_nat n),
      inserted_id = (\<lambda>n. ''oid-'' @ str_of_nat n),
      ObjectId = Some\<rparr>"

definition example_system :: system where
  "example_system =
     \<lparr>vectordb = Some [chunk_first, chunk_other, chunk_second],
      funds = [\<lparr>fund_oid = ''f1'', fund_name = ''Acme Fund'', summary = Some ''Empty'',
                document_count = Some 2, created_at = 1, updated_at = 1\<rparr>],
      documents = [\<lparr>doc_oid = ''d1'', doc_fund_id = ''f1'', doc_file_name = ''report.txt'',
                    doc_file_type = ''txt'', doc_doc_id = ''uuid-0'', doc_size_bytes = 40,
                    doc_created_at = 1\<rparr>,
                   \<lparr>doc_oid = ''d2'', doc_fund_id = ''f1'', doc_file_name = ''terms.txt'',
                    doc_file_type = ''txt'', doc_doc_id = ''uuid-1'', doc_size_bytes = 20,
                    doc_created_at = 1\<rparr>],
      db_connected = True, clock = 2, ids_drawn = 2\<rparr>"

text \<open>A file of blanks and a file with a sentence.\<close>

definition blank_file :: file_input where
  "blank_file = \<lparr>in_file_name = ''blank.txt'', in_file_extension = ''.txt'',
                  in_text = Some '' \<newline> '', in_size_bytes = 3\<rparr>"

definition report_file :: file_input where
  "report_file = \<lparr>in_file_name = ''report.txt'', in_file_extension = ''.txt'',
                   in_text = Some ''Revenue grew.'', in_size_bytes = 13\<rparr>"

text \<open>
  A fund whose stored count is 0 although it has a document, and a fund whose stored count
  is 2 although it has none; both have a summary.
\<close>

definition uncounted_fund :: fund where
  "uncounted_fund = \<lparr>fund_oid = ''f2'', fund_name = ''Beta Fund'', summary = Some ''A fund.'',
                      document_count = Some 0, created_at = 1, updated_at = 1\<rparr>"

definition emptied_fund :: fund where
  "emptied_fund = \<lparr>fund_oid = ''f3'', fund_name = ''Gamma Fund'', summary = Some ''A fund.'',
                    document_count = Some 2, created_at = 1, updated_at = 1\<rparr>"

text \<open>
  A splitter that cuts a text into pieces of the configured size, identifiers that count
  the draws in strokes, and a text of 2500 characters.
\<close>

fun chop :: "nat \<Rightarrow> string \<Rightarrow> string list" where
  "chop n cs = (if n = 0 \<or> cs = [] then [] else take n cs # chop n (drop n cs))"

declare chop.simps [simp del]

definition chopping_env :: env where
  "chopping_env =
     example_env\<lparr>create_documents := (\<lambda>cfg text. chop (chunk_size cfg) text),
                 uuid4 := (\<lambda>n. ''uuid-'' @ replicate n (CHR ''I''))\<rparr>"

definition long_text :: string where
  "long_text = replicate 2500 (CHR ''a'')"

text \<open>
  An identifier of 24 hexadecimal digits is read in either case and printed in lower case,
  as bson's \<open>ObjectId\<close> does. A fund whose identifier and whose two document records
  are stored in lower case.
\<close>

definition hex_digits :: string where
  "hex_digits = ''0123456789abcdef''"

definition bson_object_id :: "string \<Rightarrow> string option" where
  "bson_object_id text =
     (if length text = 24 \<and> list_all (\<lambda>c. c \<in> set hex_digits) (lower text)
      then Some (lower text) else None)"

definition hex_env :: env where
  "hex_env = example_env\<lparr>ObjectId := bson_object_id\<rparr>"

definition hex_fund :: fund where
  "hex_fund = \<lparr>fund_oid = ''65f1a2b3c4d5e6f708192a3b'', fund_name = ''Acme Fund'',
                summary = Some ''A fund.'', document_count = Some 2,
                created_at = 1, updated_at = 1\<rparr>"

definition hex_documents :: "doc_record list" where
  "hex_documents =
     [\<lparr>doc_oid = ''d1'', doc_fund_id = ''65f1a2b3c4d5e6f708192a3b'',
       doc_file_name = ''report.txt'', doc_file_type = ''txt'', doc_doc_id = ''uuid-0'',
       doc_size_bytes = 40, doc_created_at = 1\<rparr>,
      \<lparr>doc_oid = ''d2'', doc_fund_id = ''65f1a2b3c4d5e6f708192a3b'',
       doc_file_name = ''terms.txt'', doc_file_type = ''txt'', doc_doc_id = ''uuid-1'',
       doc_size_bytes = 20, doc_created_at = 1\<rparr>]"

definition hex_system :: system where
  "hex_system = example_system\<lparr>funds := [hex_fund], documents := hex_documents\<rparr>"

text \<open>
  A fund with a summary, a stored count of 1 and two documents; and the fund whose stored
  count is 0 with its one document.
\<close>

definition stale_fund :: fund where
  "stale_fund = \<lparr>fund_oid = ''f1'', fund_name = ''Acme Fund'', summary = Some ''An old summary.'',
                  document_count = Some 1, created_at = 1, updated_at = 1\<rparr>"

definition stale_system :: system where
  "stale_system = example_system\<lparr>funds := [stale_fund]\<rparr>"

definition uncounted_system :: system where
  "uncounted_system =
     example_system\<lparr>funds := [uncounted_fund],
                    documents := [\<lparr>doc_oid = ''d3'', doc_fund_id = ''f2'',
                                   doc_file_name = ''notes.txt'', doc_file_type = ''txt'',
                                   doc_doc_id = ''uuid-2'', doc_size_bytes = 10,
                                   doc_created_at = 1\<rparr>]\<rparr>"

section \<open>Properties of the string helpers\<close>

lemma startswith_iff: "startswith p s \<longleftrightarrow> (\<exists>post. s = p @ post)"
  by (induction p s rule: startswith.induct) auto

lemma py_in_iff: "py_in k s \<longleftrightarrow> (\<exists>pre post. s = pre @ k @ post)"
proof (induction s)
  case Nil
  then show ?case by auto
next
  case (Cons c cs)
  show ?case
  proof
    assume "py_in k (c # cs)"
    then consider "startswith k (c # cs)" | "py_in k cs" by auto
    then show "\<exists>pre post. c # cs = pre @ k @ post"
    proof cases
      case 1
      then obtain post where "c # cs = k @ post" by (auto simp: startswith_iff)
      then have "c # cs = [] @ k @ post" by simp
      then show ?thesis by blast
    next
      case 2
      then obtain pre post where "cs = pre @ k @ post" using Cons.IH by blast
      then have "c # cs = (c # pre) @ k @ post" by simp
      then show ?thesis by blast
    qed
  next
    assume "\<exists>pre post. c # cs = pre @ k @ post"
    then obtain pre post where eq: "c # cs = pre @ k @ post" by blast
    show "py_in k (c # cs)"
    proof (cases pre)
      case Nil
      with eq have "startswith k (c # cs)" by (auto simp: startswith_iff)
      then show ?thesis by simp
    next
      case (Cons a pre')
      with eq have "cs = pre' @ k @ post" by simp
      then have "py_in k cs" using Cons.IH by blast
      then show ?thesis by simp
    qed
  qed
qed

lemma is_broad_iff:
  "is_broad q \<longleftrightarrow>
     (\<exists>keyword \<in> set broad_keywords. \<exists>pre post. lower q = pre @ keyword @ post)"
  by (simp add: is_broad_def list_ex_iff py_in_iff)

section \<open>Retrieval planning: claims\<close>

text \<open>
  C4. For every query and every requested count: when the lower-cased query contains one
  of the keywords summarize, summary, overview, describe, what is as a substring, the count
  used is the larger of the requested count and 10; otherwise it is the requested count.
  The query "Summarize the fund" with a requested count of 5 gives 10, and the count used
  is never below the requested one.
\<close>

theorem C4_keyword_widening:
  "((\<exists>keyword \<in> set [''summarize'', ''summary'', ''overview'', ''describe'', ''what is''].
        \<exists>pre post. lower q = pre @ keyword @ post)
      \<longrightarrow> adjusted_top_k q top_k = max top_k 10)
   \<and> (\<not> (\<exists>keyword \<in> set [''summarize'', ''summary'', ''overview'', ''describe'', ''what is''].
          \<exists>pre post. lower q = pre @ keyword @ post)
      \<longrightarrow> adjusted_top_k q top_k = top_k)
   \<and> adjusted_top_k ''Summarize the fund'' 5 = 10
   \<and> top_k \<le> adjusted_top_k q top_k"
proof -
  have kw: "set [''summarize'', ''summary'', ''overview'', ''describe'', ''what is'']
              = set broad_keywords"
    by (simp add: broad_keywords_def)
  have "is_broad ''Summarize the fund''"
    by (simp add: is_broad_def broad_keywords_def lower_def lower_char_def
                  upper_letters_def lower_letters_def)
  then have ex: "adjusted_top_k ''Summarize the fund'' 5 = 10"
    by (simp add: adjusted_top_k_def)
  show ?thesis
    unfolding kw is_broad_iff [symmetric] using ex by (simp add: adjusted_top_k_def)
qed

lemmas lower_eval = lower_def lower_char_def upper_letters_def lower_letters_def

theorem C4_keyword_widening_witness:
  "(\<exists>keyword \<in> set [''summarize'', ''summary'', ''overview'', ''describe'', ''what is''].
        \<exists>pre post. lower ''What is the NAV?'' = pre @ keyword @ post)
   \<and> adjusted_top_k ''What is the NAV?'' 3 = 10
   \<and> \<not> (\<exists>keyword \<in> set [''summarize'', ''summary'', ''overview'', ''describe'', ''what is''].
        \<exists>pre post. lower ''Fees?'' = pre @ keyword @ post)
   \<and> adjusted_top_k ''Fees?'' 3 = 3"
proof -
  have b1: "is_broad ''What is the NAV?''"
    by (simp add: is_broad_def broad_keywords_def lower_eval)
  have b2: "\<not> is_broad ''Fees?''"
    by (simp add: is_broad_def broad_keywords_def lower_eval)
  have kw: "set [''summarize'', ''summary'', ''overview'', ''describe'', ''what is'']
              = set broad_keywords"
    by (simp add: broad_keywords_def)
  have h1: "\<exists>keyword \<in> set [''summarize'', ''summary'', ''overview'', ''describe'', ''what is''].
        \<exists>pre post. lower ''What is the NAV?'' = pre @ keyword @ post"
    unfolding kw is_broad_iff [symmetric] by (rule b1)
  have h2: "\<not> (\<exists>keyword \<in> set [''summarize'', ''summary'', ''overview'', ''describe'', ''what is''].
        \<exists>pre post. lower ''Fees?'' = pre @ keyword @ post)"
    unfolding kw is_broad_iff [symmetric] by (rule b2)
  from h1 h2 C4_keyword_widening [of "''What is the NAV?''" 3]
       C4_keyword_widening [of "''Fees?''" 3]
  show ?thesis by (simp del: set_simps)
qed

text \<open>
  C3. For a chat request against a fund with more than one document and no document filter
  (none given, or an empty list), the count the retriever is configured with is the larger
  of the keyword-adjusted count and \<open>min 15 (5 * doc_count)\<close>: the two adjustments
  compose. With 3 documents, no filter and a requested count of 5 it is 15 for every
  message, broad or not.
\<close>

theorem C3_multi_document_widening:
  "(1 < doc_count \<and> (document_ids = None \<or> document_ids = Some [])
      \<longrightarrow> chat_effective_k message top_k doc_count document_ids
            = max (adjusted_top_k message top_k) (min 15 (5 * int doc_count)))
   \<and> chat_effective_k message 5 3 None = 15"
  by (auto simp: chat_effective_k_def chat_adjusted_top_k_def adjusted_top_k_def)

theorem C3_multi_document_widening_witness:
  "(1::nat) < 2 \<and> chat_effective_k ''Summarize the fund'' 5 2 (Some []) = 10
     \<and> chat_effective_k ''Fees?'' 5 2 None = 10"
proof -
  have b1: "is_broad ''Summarize the fund''"
    by (simp add: is_broad_def broad_keywords_def lower_eval)
  have b2: "\<not> is_broad ''Fees?''"
    by (simp add: is_broad_def broad_keywords_def lower_eval)
  from C3_multi_document_widening [of 2 "Some []" "''Summarize the fund''" 5]
       C3_multi_document_widening [of 2 None "''Fees?''" 5] b1 b2
  show ?thesis by (simp add: adjusted_top_k_def)
qed

section \<open>Grouping by source and formatting\<close>

lemma first_seen_snoc:
  "first_seen (xs @ [x]) = (if x \<in> set xs then first_seen xs else first_seen xs @ [x])"
  by (simp add: first_seen_def)

lemma first_seen_Nil: "first_seen [] = []"
  by (simp add: first_seen_def)

lemma set_first_seen: "set (first_seen xs) = set xs"
  by (simp add: first_seen_def)

lemma distinct_first_seen: "distinct (first_seen xs)"
  by (simp add: first_seen_def)

lemma length_first_seen: "length (first_seen xs) \<le> length xs"
  unfolding first_seen_def by (metis length_rev length_remdups_leq)

lemma append_to_present:
  "name \<in> set names \<Longrightarrow> distinct names \<Longrightarrow>
     append_to (map (\<lambda>n. (n, f n)) names) name d
       = map (\<lambda>n. (n, if n = name then f n @ [d] else f n)) names"
  by (induction names) auto

lemma append_to_absent:
  "name \<notin> set names \<Longrightarrow>
     append_to (map (\<lambda>n. (n, f n)) names) name d = map (\<lambda>n. (n, f n)) names @ [(name, [d])]"
  by (induction names) auto

lemma docs_by_source_snoc:
  "docs_by_source (docs @ [d]) = append_to (docs_by_source docs) (source_name d) d"
  by (simp add: docs_by_source_def)

lemma docs_by_source_groups:
  "docs_by_source docs
     = map (\<lambda>n. (n, filter (\<lambda>d. source_name d = n) docs)) (first_seen (map source_name docs))"
proof (induction docs rule: rev_induct)
  case Nil
  show ?case by (simp add: docs_by_source_def first_seen_Nil)
next
  case (snoc d docs)
  let ?names = "first_seen (map source_name docs)"
  show ?case
  proof (cases "source_name d \<in> set (map source_name docs)")
    case True
    then have "source_name d \<in> set ?names" by (simp add: set_first_seen)
    then have "append_to (docs_by_source docs) (source_name d) d
        = map (\<lambda>n. (n, if n = source_name d then filter (\<lambda>x. source_name x = n) docs @ [d]
                         else filter (\<lambda>x. source_name x = n) docs)) ?names"
      unfolding snoc.IH by (rule append_to_present) (rule distinct_first_seen)
    also have "\<dots> = map (\<lambda>n. (n, filter (\<lambda>x. source_name x = n) (docs @ [d]))) ?names"
      by (rule map_cong) auto
    finally show ?thesis
      using True by (simp add: docs_by_source_snoc first_seen_snoc)
  next
    case False
    then have notin: "source_name d \<notin> set ?names" by (simp add: set_first_seen)
    have empty: "filter (\<lambda>x. source_name x = source_name d) docs = []"
    proof -
      have "source_name x \<noteq> source_name d" if "x \<in> set docs" for x
        using that False by (metis image_eqI set_map)
      then show ?thesis by (simp add: filter_empty_conv)
    qed
    have "append_to (docs_by_source docs) (source_name d) d
        = map (\<lambda>n. (n, filter (\<lambda>x. source_name x = n) docs)) ?names @ [(source_name d, [d])]"
      unfolding snoc.IH using notin by (rule append_to_absent)
    also have "map (\<lambda>n. (n, filter (\<lambda>x. source_name x = n) docs)) ?names
        = map (\<lambda>n. (n, filter (\<lambda>x. source_name x = n) (docs @ [d]))) ?names"
      using notin by (intro map_cong) auto
    finally show ?thesis
      using False empty by (simp add: docs_by_source_snoc first_seen_snoc)
  qed
qed

lemma foldl_assign_locals:
  "foldl assign_locals l ds = (if ds = [] then l else Some (locals_of (last ds)))"
  by (induction ds arbitrary: l) (auto simp: assign_locals_def)

lemma format_sources_nonempty:
  "\<forall>(n, g) \<in> set groups. g \<noteq> [] \<Longrightarrow>
     format_sources groups l acc
       = Inr (acc @ concat (map (\<lambda>(n, g). [header n, render (locals_of (last g))]) groups))"
proof (induction groups arbitrary: l acc)
  case Nil
  show ?case by simp
next
  case (Cons p groups)
  obtain n g where p: "p = (n, g)" by (cases p)
  with Cons.prems have g: "g \<noteq> []" and rest: "\<forall>(n, g) \<in> set groups. g \<noteq> []" by auto
  show ?case
    using g by (simp add: p foldl_assign_locals Cons.IH [OF rest])
qed

lemma docs_by_source_nonempty: "\<forall>(n, g) \<in> set (docs_by_source docs). g \<noteq> []"
proof -
  have "filter (\<lambda>d. source_name d = n) docs \<noteq> []" if "n \<in> set (map source_name docs)" for n
    using that by (auto simp: filter_empty_conv)
  then show ?thesis
    by (auto simp: docs_by_source_groups set_first_seen)
qed

lemma formatted_docs_blocks:
  "formatted_docs docs
     = Inr (concat (map (\<lambda>(n, g). [header n, render (locals_of (last g))]) (docs_by_source docs)))"
  unfolding formatted_docs_def
  using format_sources_nonempty [OF docs_by_source_nonempty, of docs None "[]"] by simp

section \<open>Sources without duplicates\<close>

lemma unique_step_seen:
  "snd (foldl unique_step (us, seen) srcs) = seen \<union> set (map source_id srcs)"
  by (induction srcs arbitrary: us seen) (auto simp: unique_step_def)

lemma foldl_unique_step_snoc:
  "foldl unique_step st (srcs @ [s]) = unique_step (foldl unique_step st srcs) s"
  by simp

lemma unique_sources_snoc:
  "unique_sources (srcs @ [s])
     = (if source_id s \<in> set (map source_id srcs) then unique_sources srcs
        else unique_sources srcs @ [s])"
proof -
  obtain us seen where st: "foldl unique_step ([], {}) srcs = (us, seen)"
    by (cases "foldl unique_step ([], {}) srcs")
  have "seen = set (map source_id srcs)"
    using unique_step_seen [of "[]" "{}" srcs] st by simp
  then show ?thesis
    by (simp add: unique_sources_def st unique_step_def)
qed

lemma unique_sources_Nil: "unique_sources [] = []"
  by (simp add: unique_sources_def)

lemma find_snoc_present:
  "key \<in> set (map f xs) \<Longrightarrow> find (\<lambda>s. f s = key) (xs @ [x]) = find (\<lambda>s. f s = key) xs"
  by (induction xs) auto

lemma find_snoc_absent:
  "f x \<notin> set (map f xs) \<Longrightarrow> find (\<lambda>s. f s = f x) (xs @ [x]) = Some x"
  by (induction xs) auto

lemma unique_sources_first:
  "unique_sources srcs
     = map (\<lambda>key. the (find (\<lambda>s. source_id s = key) srcs)) (first_seen (map source_id srcs))"
proof (induction srcs rule: rev_induct)
  case Nil
  show ?case by (simp add: unique_sources_Nil first_seen_Nil)
next
  case (snoc s srcs)
  let ?keys = "first_seen (map source_id srcs)"
  have same: "map (\<lambda>key. the (find (\<lambda>t. source_id t = key) (srcs @ [s]))) ?keys
                = map (\<lambda>key. the (find (\<lambda>t. source_id t = key) srcs)) ?keys"
    by (rule map_cong) (simp_all add: set_first_seen find_snoc_present del: set_map)
  show ?case
  proof (cases "source_id s \<in> set (map source_id srcs)")
    case True
    then show ?thesis
      using same snoc.IH by (simp add: unique_sources_snoc first_seen_snoc del: set_map)
  next
    case False
    then show ?thesis
      using same snoc.IH find_snoc_absent [of source_id s srcs]
      by (simp add: unique_sources_snoc first_seen_snoc del: set_map)
  qed
qed

lemma unique_sources_keys:
  "map source_id (unique_sources srcs) = first_seen (map source_id srcs)"
proof (induction srcs rule: rev_induct)
  case Nil
  show ?case by (simp add: unique_sources_Nil first_seen_Nil)
next
  case (snoc s srcs)
  then show ?case by (simp add: unique_sources_snoc first_seen_snoc del: set_map)
qed

lemma unique_sources_subset: "set (unique_sources srcs) \<subseteq> set srcs"
  by (induction srcs rule: rev_induct) (auto simp: unique_sources_Nil unique_sources_snoc)

section \<open>RAGService.query: claims\<close>


text \<open>
  C1. The claim: for each document group the context holds the header and then a rendering
  of every chunk of the group, by its type. On two text chunks of one file the code emits
  the header and a rendering of the second chunk only; the text of the first chunk is not
  in the context.
\<close>

theorem C1_only_last_chunk_of_a_source_rendered:
  "formatted_docs [chunk_first, chunk_second]
     = Inr [''\<newline>--- DOCUMENT: report.txt ---\<newline>'',
            ''[CONTENT from page Unknown page, chunk 1]:\<newline>Costs fell in Q1.'']"
  by (simp add: formatted_docs_def docs_by_source_def source_name_def get_def
        chunk_first_def chunk_second_def assign_locals_def locals_of_def render_def header_def
        str_of_int_def digits_def)

text \<open>
  C6. The claim keys a chunk by file name, page number and type joined with \<open>|\<close>. The
  source joins them with \<open>-\<close>, so page 2 of the file \<open>a-1\<close> and the pages 1-2 of the file
  \<open>a\<close>, whose keys in the claim are \<open>a-1|2|text\<close> and \<open>a|1-2|text\<close>, have the one key
  \<open>a-1-2-text\<close> in the code and only the first of them is returned.
\<close>

theorem C6_separator_counterexample:
  "spec_identity_key source_page_two = ''a-1|2|text''
   \<and> spec_identity_key source_page_range = ''a|1-2|text''
   \<and> spec_identity_key source_page_two \<noteq> spec_identity_key source_page_range
   \<and> source_id source_page_two = ''a-1-2-text''
   \<and> source_id source_page_range = ''a-1-2-text''
   \<and> unique_sources [source_page_two, source_page_range] = [source_page_two]"
  by (simp add: spec_identity_key_def source_id_def get_str_def get_def unique_sources_def
        unique_step_def source_page_two_def source_page_range_def)

text \<open>
  C6, as amended. The key \<open>source_id\<close> of a source is its \<open>file_name\<close>, its
  \<open>page_number\<close> and its \<open>type\<close>, each as \<open>str\<close> prints it and the empty string when
  the field is missing, joined with \<open>-\<close>. The result holds, for each distinct key in the
  order of first occurrence, the first source with that key; no two results share a key
  and the result is no longer than the input.
\<close>

theorem C6_unique_sources_by_source_id:
  "source_id src
     = (case src ''file_name'' of None \<Rightarrow> [] | Some v \<Rightarrow> py_str v) @ ''-''
       @ (case src ''page_number'' of None \<Rightarrow> [] | Some v \<Rightarrow> py_str v) @ ''-''
       @ (case src ''type'' of None \<Rightarrow> [] | Some v \<Rightarrow> py_str v)
   \<and> source_id [''file_name'' \<mapsto> MStr a, ''page_number'' \<mapsto> MStr b, ''type'' \<mapsto> MStr c]
       = a @ ''-'' @ b @ ''-'' @ c
   \<and> source_id [''file_name'' \<mapsto> MStr a, ''page_number'' \<mapsto> MInt 3, ''type'' \<mapsto> MStr c]
       = a @ ''-3-'' @ c
   \<and> source_id [''file_name'' \<mapsto> MStr a] = a @ ''--''
   \<and> unique_sources srcs
     = map (\<lambda>key. the (find (\<lambda>s. source_id s = key) srcs)) (first_seen (map source_id srcs))
   \<and> map source_id (unique_sources srcs) = first_seen (map source_id srcs)
   \<and> distinct (map source_id (unique_sources srcs))
   \<and> length (unique_sources srcs) \<le> length srcs
   \<and> source_id Map.empty = ''--''"
proof -
  have len: "length (unique_sources srcs) \<le> length srcs"
    using length_first_seen [of "map source_id srcs"] unique_sources_keys [of srcs]
    by (metis length_map)
  have key: "source_id src
     = (case src ''file_name'' of None \<Rightarrow> [] | Some v \<Rightarrow> py_str v) @ ''-''
       @ (case src ''page_number'' of None \<Rightarrow> [] | Some v \<Rightarrow> py_str v) @ ''-''
       @ (case src ''type'' of None \<Rightarrow> [] | Some v \<Rightarrow> py_str v)" for src
    by (simp add: source_id_def get_str_def get_def split: option.splits)
  have k1: "source_id [''file_name'' \<mapsto> MStr a, ''page_number'' \<mapsto> MStr b, ''type'' \<mapsto> MStr c]
       = a @ ''-'' @ b @ ''-'' @ c"
    by (simp add: key)
  have k2: "source_id [''file_name'' \<mapsto> MStr a, ''page_number'' \<mapsto> MInt 3, ''type'' \<mapsto> MStr c]
       = a @ ''-3-'' @ c"
    by (simp add: key str_of_int_def digits_def)
  have k3: "source_id [''file_name'' \<mapsto> MStr a] = a @ ''--''"
    by (simp add: key)
  have k4: "source_id Map.empty = ''--''"
    by (simp add: key)
  show ?thesis
    apply (intro conjI)
            apply (rule key)
           apply (rule k1)
          apply (rule k2)
         apply (rule k3)
        apply (simp add: unique_sources_first [symmetric])
       apply (rule unique_sources_keys)
      apply (simp add: unique_sources_keys distinct_first_seen)
     apply (rule len)
    apply (rule k4)
    done
qed

text \<open>
  The groups are the distinct file names in the order of their first occurrence, each with
  the chunks of that name in input order; the output is one header and one rendering per
  group, the rendering being that of the last chunk of the group.
\<close>

lemma groups_in_first_seen_order:
  "docs_by_source docs
     = map (\<lambda>n. (n, filter (\<lambda>d. source_name d = n) docs)) (first_seen (map source_name docs))
   \<and> formatted_docs docs
     = Inr (concat (map (\<lambda>n. [header n,
                              render (locals_of (last (filter (\<lambda>d. source_name d = n) docs)))])
                        (first_seen (map source_name docs))))"
proof -
  have "formatted_docs docs
     = Inr (concat (map (\<lambda>(n, g). [header n, render (locals_of (last g))]) (docs_by_source docs)))"
    by (rule formatted_docs_blocks)
  also have "\<dots> = Inr (concat (map (\<lambda>n. [header n,
                              render (locals_of (last (filter (\<lambda>d. source_name d = n) docs)))])
                        (first_seen (map source_name docs))))"
    by (simp add: docs_by_source_groups comp_def)
  finally show ?thesis
    using docs_by_source_groups [of docs] by simp
qed

text \<open>
  C7. The claim: all chunks of one file name appear contiguously in the output, the groups
  in the order of first occurrence. On chunk 0 of \<open>report.txt\<close>, a chunk of
  \<open>terms.txt\<close> and chunk 1 of \<open>report.txt\<close> the chunks are grouped so, \<open>report.txt\<close>
  first with both of its chunks, but the output is the header of \<open>report.txt\<close>, the
  rendering of its chunk 1, the header of \<open>terms.txt\<close> and the rendering of its chunk:
  chunk 0 of \<open>report.txt\<close> is in no element of the output.
\<close>

theorem C7_interleaved_first_chunk_missing:
  "docs_by_source [chunk_first, chunk_other, chunk_second]
     = [(MStr ''report.txt'', [chunk_first, chunk_second]), (MStr ''terms.txt'', [chunk_other])]
   \<and> formatted_docs [chunk_first, chunk_other, chunk_second]
     = Inr [''\<newline>--- DOCUMENT: report.txt ---\<newline>'',
            ''[CONTENT from page Unknown page, chunk 1]:\<newline>Costs fell in Q1.'',
            ''\<newline>--- DOCUMENT: terms.txt ---\<newline>'',
            ''[CONTENT from page Unknown page, chunk 0]:\<newline>Fees are two percent.'']"
  by (simp add: formatted_docs_def docs_by_source_def source_name_def get_def
        chunk_first_def chunk_second_def chunk_other_def assign_locals_def locals_of_def
        render_def header_def str_of_int_def digits_def)

text \<open>
  C2. The answer does not depend on the context string assembled in \<open>query\<close>: changing
  the context among the locals changes nothing in the result of the last phase, and the
  answer (or the error) of \<open>query\<close> is what the chain returns for the retriever, the fixed
  prompt and the query as given.
\<close>

theorem C2_answer_from_chain_only:
  "answer_phase e index q (l\<lparr>q_context := c1\<rparr>) = answer_phase e index q (l\<lparr>q_context := c2\<rparr>)
   \<and> (vectordb s = Some index \<longrightarrow>
        map_sum id fst (query e s q fid top_k document_ids)
          = chain_invoke e index
              \<lparr>search_k = adjusted_top_k q top_k, search_filter = make_filter fid document_ids\<rparr>
              qa_prompt q)"
proof -
  have "answer_phase e index q (l\<lparr>q_context := c1\<rparr>) = answer_phase e index q (l\<lparr>q_context := c2\<rparr>)"
    by (simp add: answer_phase_def split: sum.splits)
  moreover have "map_sum id fst (query e s q fid top_k document_ids)
          = chain_invoke e index
              \<lparr>search_k = adjusted_top_k q top_k, search_filter = make_filter fid document_ids\<rparr>
              qa_prompt q" if "vectordb s = Some index"
    using that
    by (simp add: query_def context_phase_def Let_def formatted_docs_blocks answer_phase_def
             split: sum.splits)
  ultimately show ?thesis by simp
qed

theorem C2_answer_from_chain_only_witness:
  "vectordb example_system = Some [chunk_first, chunk_other, chunk_second]
   \<and> map_sum id fst (query example_env example_system ''What grew?'' ''f1'' 5 None)
       = Inr ''Revenue grew.''"
proof -
  have v: "vectordb example_system = Some [chunk_first, chunk_other, chunk_second]"
    by (simp add: example_system_def)
  have "chain_invoke example_env [chunk_first, chunk_other, chunk_second]
          \<lparr>search_k = adjusted_top_k ''What grew?'' 5, search_filter = make_filter ''f1'' None\<rparr>
          qa_prompt ''What grew?'' = Inr ''Revenue grew.''"
    by (simp add: example_env_def)
  with v C2_answer_from_chain_only [where e = example_env
          and index = "[chunk_first, chunk_other, chunk_second]" and q = "''What grew?''"
          and s = example_system and fid = "''f1''" and top_k = 5 and document_ids = None]
  show ?thesis by simp
qed

section \<open>Indexing: claims\<close>

lemma strip_empty_iff: "strip t = [] \<longleftrightarrow> (\<forall>c \<in> set t. isspace c)"
proof
  assume "strip t = []"
  then have "dropWhile isspace (rev (dropWhile isspace t)) = []"
    by (simp add: strip_def)
  then have tail: "\<forall>c \<in> set (dropWhile isspace t). isspace c"
    by (simp add: dropWhile_eq_Nil_conv)
  have "set t = set (takeWhile isspace t) \<union> set (dropWhile isspace t)"
    by (metis set_append takeWhile_dropWhile_id)
  then show "\<forall>c \<in> set t. isspace c"
    using tail by (auto dest: set_takeWhileD)
next
  assume "\<forall>c \<in> set t. isspace c"
  then have "dropWhile isspace t = []"
    by (simp add: dropWhile_eq_Nil_conv)
  then show "strip t = []"
    by (simp only: strip_def rev.simps dropWhile.simps)
qed

lemma add_to_pinecone_draws:
  "ids_drawn (snd (add_to_pinecone e s t md)) = Suc (ids_drawn s)"
  by (simp add: add_to_pinecone_def Let_def split: option.splits)

text \<open>
  C8. When the text extracted from a file is empty or holds whitespace only,
  \<open>process_file\<close> reports failure and leaves the state as it was: the index has
  received nothing and no identifier was drawn, whereas a call of \<open>_add_to_pinecone\<close>
  always draws one and so changes the state.
\<close>

theorem C8_empty_text_not_indexed:
  "in_text upload = Some t \<Longrightarrow> \<forall>c \<in> set t. isspace c \<Longrightarrow>
     process_file e s upload fid = (False, s)
     \<and> vectordb (snd (process_file e s upload fid)) = vectordb s
     \<and> snd (add_to_pinecone e s t md) \<noteq> s"
proof -
  assume t: "in_text upload = Some t" and ws: "\<forall>c \<in> set t. isspace c"
  from ws have "strip t = []" by (simp add: strip_empty_iff)
  with t have r: "process_file e s upload fid = (False, s)"
    by (simp add: process_file_def)
  have "ids_drawn (snd (add_to_pinecone e s t md)) \<noteq> ids_drawn s"
    by (simp add: add_to_pinecone_draws)
  then have "snd (add_to_pinecone e s t md) \<noteq> s" by auto
  with r show ?thesis by simp
qed

theorem C8_empty_text_not_indexed_witness:
  "in_text blank_file = Some '' \<newline> '' \<and> list_all isspace '' \<newline> ''
   \<and> process_file example_env example_system blank_file ''f1'' = (False, example_system)"
proof -
  have t: "in_text blank_file = Some '' \<newline> ''" by (simp add: blank_file_def)
  have ws: "\<forall>c \<in> set '' \<newline> ''. isspace c" by (simp add: isspace_def)
  have wl: "list_all isspace '' \<newline> ''" by (simp add: isspace_def)
  from C8_empty_text_not_indexed [OF t ws, of example_env example_system "''f1''"] t wl
  show ?thesis by simp
qed

lemma with_metadata_length: "length (with_metadata md doc_id parts) = length parts"
  by (simp add: with_metadata_def)

lemma with_metadata_nth:
  "i < length parts \<Longrightarrow>
     with_metadata md doc_id parts ! i
       = \<lparr>page_content = parts ! i, metadata = chunk_metadata md doc_id i (length parts)\<rparr>"
  by (simp add: with_metadata_def nth_enumerate_eq)

lemma with_metadata_contents: "map page_content (with_metadata md doc_id parts) = parts"
  by (rule nth_equalityI) (simp_all add: with_metadata_length with_metadata_nth)

lemma with_metadata_chunk:
  "map (\<lambda>d. metadata d ''chunk'') (with_metadata md doc_id parts)
     = map (\<lambda>i. Some (MInt (int i))) [0..<length parts]"
  by (rule nth_equalityI)
     (simp_all add: with_metadata_length with_metadata_nth chunk_metadata_def)

lemma with_metadata_fields:
  assumes "d \<in> set (with_metadata md doc_id parts)"
  shows "metadata d ''doc_id'' = Some (MStr doc_id)"
    and "metadata d ''total_chunks'' = Some (MInt (int (length parts)))"
    and "metadata d ''fund_id'' = md ''fund_id''"
    and "metadata d ''file_type'' = md ''file_type''"
    and "metadata d ''file_name'' = Some (get md ''file_name'' (MStr ''Unknown''))"
proof -
  from assms obtain i where "i < length parts"
    and "d = \<lparr>page_content = parts ! i, metadata = chunk_metadata md doc_id i (length parts)\<rparr>"
    by (metis in_set_conv_nth with_metadata_length with_metadata_nth)
  then show "metadata d ''doc_id'' = Some (MStr doc_id)"
    and "metadata d ''total_chunks'' = Some (MInt (int (length parts)))"
    and "metadata d ''fund_id'' = md ''fund_id''"
    and "metadata d ''file_type'' = md ''file_type''"
    and "metadata d ''file_name'' = Some (get md ''file_name'' (MStr ''Unknown''))"
    by (simp_all add: chunk_metadata_def)
qed

lemma chop_long_text:
  "chop 1000 long_text
     = [replicate 1000 (CHR ''a''), replicate 1000 (CHR ''a''), replicate 500 (CHR ''a'')]"
proof -
  have a: "chop 1000 (replicate 2500 (CHR ''a''))
             = replicate 1000 (CHR ''a'') # chop 1000 (replicate 1500 (CHR ''a''))"
    by (subst chop.simps) simp
  have b: "chop 1000 (replicate 1500 (CHR ''a''))
             = replicate 1000 (CHR ''a'') # chop 1000 (replicate 500 (CHR ''a''))"
    by (subst chop.simps) simp
  have c: "chop 1000 (replicate 500 (CHR ''a'')) = replicate 500 (CHR ''a'') # chop 1000 []"
    by (subst chop.simps) simp
  have d: "chop 1000 [] = []"
    by (subst chop.simps) simp
  show ?thesis by (simp only: long_text_def a b c d)
qed

lemma inj_tally: "inj (\<lambda>n. ''uuid-'' @ replicate n (CHR ''I''))"
proof (rule injI)
  fix x y :: nat
  assume "''uuid-'' @ replicate x (CHR ''I'') = ''uuid-'' @ replicate y (CHR ''I'')"
  then have "replicate x (CHR ''I'') = replicate y (CHR ''I'')" by simp
  then have "length (replicate x (CHR ''I'')) = length (replicate y (CHR ''I''))" by simp
  then show "x = y" by simp
qed

lemma with_metadata_sizes:
  assumes "\<forall>part \<in> set parts. length part \<le> n"
  shows "\<forall>d \<in> set (with_metadata md doc_id parts). length (page_content d) \<le> n"
proof
  fix d assume "d \<in> set (with_metadata md doc_id parts)"
  then have "page_content d \<in> set (map page_content (with_metadata md doc_id parts))" by simp
  then have "page_content d \<in> set parts" by (simp only: with_metadata_contents)
  with assms show "length (page_content d) \<le> n" by blast
qed

lemma add_to_pinecone_fresh:
  assumes "inj (uuid4 e)"
    and "fst (add_to_pinecone e s t md) = Inr a"
    and "fst (add_to_pinecone e (snd (add_to_pinecone e s t md)) t2 md2) = Inr b"
  shows "a \<noteq> b"
proof -
  from assms(2) have a: "a = uuid4 e (ids_drawn s)"
    by (auto simp: add_to_pinecone_def Let_def split: option.splits if_splits)
  from assms(3) have "b = uuid4 e (ids_drawn (snd (add_to_pinecone e s t md)))"
    by (auto simp: add_to_pinecone_def Let_def split: option.splits if_splits)
  then have b: "b = uuid4 e (Suc (ids_drawn s))"
    by (simp only: add_to_pinecone_draws)
  from assms(1) have "uuid4 e (ids_drawn s) \<noteq> uuid4 e (Suc (ids_drawn s))"
    by (metis inj_eq n_not_Suc_n)
  with a b show ?thesis by blast
qed

text \<open>
  C9. The splitter is configured with chunks of 1000 characters, an overlap of 200, the
  separators paragraph, line, word and character in that order, and kept separators; when
  the parts it returns keep to the configured size, no chunk has more than 1000
  characters. The chunks of one call are the parts the splitter returns, in order; their
  \<open>chunk\<close> values are 0 to N - 1; each carries the one identifier of the call,
  \<open>total_chunks\<close> equal to N, and the \<open>fund_id\<close>, \<open>file_type\<close> and \<open>file_name\<close> of
  the caller's metadata. With an index that accepts the batch, the call returns the
  identifier it drew and appends these chunks to the index. When \<open>uuid4\<close> never
  repeats, the identifiers of a call and of the next call differ. \<open>process_file\<close> calls
  it with the fund, the name and the type of the file.
\<close>

theorem C9_chunks_of_one_call:
  "text_splitter = \<lparr>chunk_size = 1000, chunk_overlap = 200,
                     separators = [''\<newline>\<newline>'', ''\<newline>'', '' '', ''''],
                     keep_separator = True\<rparr>
   \<and> ((\<forall>part \<in> set (create_documents e text_splitter t).
          length part \<le> chunk_size text_splitter)
       \<longrightarrow> (\<forall>d \<in> set (with_metadata md doc_id (create_documents e text_splitter t)).
              length (page_content d) \<le> 1000))
   \<and> map page_content (with_metadata md doc_id (create_documents e text_splitter t))
       = create_documents e text_splitter t
   \<and> map (\<lambda>d. metadata d ''chunk'') (with_metadata md doc_id (create_documents e text_splitter t))
       = map (\<lambda>i. Some (MInt (int i))) [0..<length (create_documents e text_splitter t)]
   \<and> (\<forall>d \<in> set (with_metadata md doc_id (create_documents e text_splitter t)).
         metadata d ''doc_id'' = Some (MStr doc_id)
         \<and> metadata d ''total_chunks'' = Some (MInt (int (length (create_documents e text_splitter t))))
         \<and> metadata d ''fund_id'' = md ''fund_id''
         \<and> metadata d ''file_type'' = md ''file_type''
         \<and> metadata d ''file_name'' = Some (get md ''file_name'' (MStr ''Unknown'')))
   \<and> (vectordb s = Some index
        \<and> add_documents_ok e (with_metadata md (uuid4 e (ids_drawn s))
                                 (create_documents e text_splitter t))
       \<longrightarrow> add_to_pinecone e s t md
             = (Inr (uuid4 e (ids_drawn s)),
                s\<lparr>ids_drawn := Suc (ids_drawn s),
                  vectordb := Some (index @ with_metadata md (uuid4 e (ids_drawn s))
                                              (create_documents e text_splitter t))\<rparr>))
   \<and> (inj (uuid4 e)
        \<and> fst (add_to_pinecone e s t md) = Inr a
        \<and> fst (add_to_pinecone e (snd (add_to_pinecone e s t md)) t2 md2) = Inr b
       \<longrightarrow> a \<noteq> b)
   \<and> file_metadata s fid upload ''fund_id'' = Some (MStr fid)
   \<and> file_metadata s fid upload ''file_name'' = Some (MStr (in_file_name upload))
   \<and> file_metadata s fid upload ''file_type'' = Some (MStr (file_type_of (in_file_extension upload)))"
proof -
  have fields: "\<forall>d \<in> set (with_metadata md doc_id (create_documents e text_splitter t)).
         metadata d ''doc_id'' = Some (MStr doc_id)
         \<and> metadata d ''total_chunks'' = Some (MInt (int (length (create_documents e text_splitter t))))
         \<and> metadata d ''fund_id'' = md ''fund_id''
         \<and> metadata d ''file_type'' = md ''file_type''
         \<and> metadata d ''file_name'' = Some (get md ''file_name'' (MStr ''Unknown''))"
    using with_metadata_fields by blast
  have add: "add_to_pinecone e s t md
             = (Inr (uuid4 e (ids_drawn s)),
                s\<lparr>ids_drawn := Suc (ids_drawn s),
                  vectordb := Some (index @ with_metadata md (uuid4 e (ids_drawn s))
                                              (create_documents e text_splitter t))\<rparr>)"
    if "vectordb s = Some index"
      and "add_documents_ok e (with_metadata md (uuid4 e (ids_drawn s))
                                 (create_documents e text_splitter t))"
    using that by (simp add: add_to_pinecone_def Let_def)
  have meta: "file_metadata s fid upload ''fund_id'' = Some (MStr fid)"
    "file_metadata s fid upload ''file_name'' = Some (MStr (in_file_name upload))"
    "file_metadata s fid upload ''file_type'' = Some (MStr (file_type_of (in_file_extension upload)))"
    by (simp_all add: file_metadata_def)
  have cfg: "text_splitter = \<lparr>chunk_size = 1000, chunk_overlap = 200,
                     separators = [''\<newline>\<newline>'', ''\<newline>'', '' '', ''''],
                     keep_separator = True\<rparr>"
    by (simp add: text_splitter_def)
  have size: "(\<forall>part \<in> set (create_documents e text_splitter t).
          length part \<le> chunk_size text_splitter)
       \<longrightarrow> (\<forall>d \<in> set (with_metadata md doc_id (create_documents e text_splitter t)).
              length (page_content d) \<le> 1000)"
  proof
    assume "\<forall>part \<in> set (create_documents e text_splitter t).
          length part \<le> chunk_size text_splitter"
    then have "\<forall>part \<in> set (create_documents e text_splitter t). length part \<le> 1000"
      by (simp add: text_splitter_def)
    then show "\<forall>d \<in> set (with_metadata md doc_id (create_documents e text_splitter t)).
              length (page_content d) \<le> 1000"
      by (rule with_metadata_sizes)
  qed
  have fresh: "inj (uuid4 e)
        \<and> fst (add_to_pinecone e s t md) = Inr a
        \<and> fst (add_to_pinecone e (snd (add_to_pinecone e s t md)) t2 md2) = Inr b
       \<longrightarrow> a \<noteq> b"
    using add_to_pinecone_fresh by blast
  show ?thesis
    apply (intro conjI)
             apply (rule cfg)
            apply (rule size)
           apply (rule with_metadata_contents)
          apply (rule with_metadata_chunk)
         apply (rule fields)
        apply (use add in blast)
       apply (rule fresh)
      apply (rule meta)+
    done
qed

theorem C9_chunks_of_one_call_witness:
  "list_all (\<lambda>part. length part \<le> chunk_size text_splitter)
       (create_documents chopping_env text_splitter long_text)
   \<and> inj (uuid4 chopping_env)
   \<and> vectordb example_system = Some [chunk_first, chunk_other, chunk_second]
   \<and> add_documents_ok chopping_env
         (with_metadata (file_metadata example_system ''f1'' report_file)
            (uuid4 chopping_env (ids_drawn example_system))
            (create_documents chopping_env text_splitter long_text))
   \<and> map length (create_documents chopping_env text_splitter long_text) = [1000, 1000, 500]
   \<and> list_all (\<lambda>d. length (page_content d) \<le> 1000
                      \<and> metadata d ''doc_id'' = Some (MStr ''uuid-II'')
                      \<and> metadata d ''total_chunks'' = Some (MInt 3)
                      \<and> metadata d ''fund_id'' = Some (MStr ''f1''))
         (with_metadata (file_metadata example_system ''f1'' report_file) ''uuid-II''
            (create_documents chopping_env text_splitter long_text))
   \<and> map (\<lambda>d. metadata d ''chunk'')
         (with_metadata (file_metadata example_system ''f1'' report_file) ''uuid-II''
            (create_documents chopping_env text_splitter long_text))
       = [Some (MInt 0), Some (MInt 1), Some (MInt 2)]
   \<and> fst (add_to_pinecone chopping_env example_system long_text
             (file_metadata example_system ''f1'' report_file)) = Inr ''uuid-II''
   \<and> fst (add_to_pinecone chopping_env
             (snd (add_to_pinecone chopping_env example_system long_text
                     (file_metadata example_system ''f1'' report_file)))
             long_text (file_metadata example_system ''f1'' report_file)) = Inr ''uuid-III''"
proof -
  let ?md = "file_metadata example_system ''f1'' report_file"
  have parts: "create_documents chopping_env text_splitter long_text
      = [replicate 1000 (CHR ''a''), replicate 1000 (CHR ''a''), replicate 500 (CHR ''a'')]"
    by (simp add: chopping_env_def text_splitter_def chop_long_text)
  have h1: "\<forall>part \<in> set (create_documents chopping_env text_splitter long_text).
          length part \<le> chunk_size text_splitter"
    unfolding parts by (simp add: text_splitter_def)
  have h2: "inj (uuid4 chopping_env)"
    unfolding chopping_env_def using inj_tally by simp
  have v: "vectordb example_system = Some [chunk_first, chunk_other, chunk_second]"
    by (simp add: example_system_def)
  have ok: "add_documents_ok chopping_env docs" for docs
    by (simp add: chopping_env_def example_env_def)
  have uuid: "uuid4 chopping_env (ids_drawn example_system) = ''uuid-II''"
    by (simp add: chopping_env_def example_system_def numeral_2_eq_2)
  have first: "fst (add_to_pinecone chopping_env example_system long_text ?md) = Inr ''uuid-II''"
    using v ok uuid by (simp add: add_to_pinecone_def Let_def)
  have second: "fst (add_to_pinecone chopping_env
             (snd (add_to_pinecone chopping_env example_system long_text ?md))
             long_text ?md) = Inr ''uuid-III''"
    using v ok
    by (simp add: add_to_pinecone_def Let_def chopping_env_def example_system_def
          numeral_2_eq_2)
  note c = C9_chunks_of_one_call [where e = chopping_env and s = example_system
      and t = long_text and md = ?md
      and doc_id = "''uuid-II''" and index = "[chunk_first, chunk_other, chunk_second]"
      and fid = "''f1''" and upload = report_file and a = "''uuid-II''" and b = "''uuid-III''"
      and ?t2.0 = long_text and ?md2.0 = ?md]
  from c h1 have sizes: "\<forall>d \<in> set (with_metadata ?md ''uuid-II''
            (create_documents chopping_env text_splitter long_text)).
              length (page_content d) \<le> 1000"
    by blast
  from c have fields: "\<forall>d \<in> set (with_metadata ?md ''uuid-II''
            (create_documents chopping_env text_splitter long_text)).
         metadata d ''doc_id'' = Some (MStr ''uuid-II'')
         \<and> metadata d ''total_chunks''
             = Some (MInt (int (length (create_documents chopping_env text_splitter long_text))))
         \<and> metadata d ''fund_id'' = ?md ''fund_id''"
    by blast
  from c have chunks: "map (\<lambda>d. metadata d ''chunk'')
         (with_metadata ?md ''uuid-II'' (create_documents chopping_env text_splitter long_text))
       = map (\<lambda>i. Some (MInt (int i)))
           [0..<length (create_documents chopping_env text_splitter long_text)]"
    by blast
  from c have fid: "?md ''fund_id'' = Some (MStr ''f1'')"
    by blast
  have three: "[0..<length (create_documents chopping_env text_splitter long_text)] = [0, 1, 2]"
    by (simp add: parts upt_rec)
  have all: "list_all (\<lambda>d. length (page_content d) \<le> 1000
                      \<and> metadata d ''doc_id'' = Some (MStr ''uuid-II'')
                      \<and> metadata d ''total_chunks'' = Some (MInt 3)
                      \<and> metadata d ''fund_id'' = Some (MStr ''f1''))
         (with_metadata ?md ''uuid-II''
            (create_documents chopping_env text_splitter long_text))"
    unfolding list_all_iff
  proof
    fix d assume d: "d \<in> set (with_metadata ?md ''uuid-II''
            (create_documents chopping_env text_splitter long_text))"
    from sizes d have 1: "length (page_content d) \<le> 1000" by blast
    from fields d fid have 2: "metadata d ''doc_id'' = Some (MStr ''uuid-II'')"
      and 3: "metadata d ''total_chunks''
             = Some (MInt (int (length (create_documents chopping_env text_splitter long_text))))"
      and 4: "metadata d ''fund_id'' = Some (MStr ''f1'')"
      by simp_all
    from 3 have "metadata d ''total_chunks'' = Some (MInt 3)" by (simp add: parts)
    with 1 2 4 show "length (page_content d) \<le> 1000
                      \<and> metadata d ''doc_id'' = Some (MStr ''uuid-II'')
                      \<and> metadata d ''total_chunks'' = Some (MInt 3)
                      \<and> metadata d ''fund_id'' = Some (MStr ''f1'')" by simp
  qed
  have h1': "list_all (\<lambda>part. length part \<le> chunk_size text_splitter)
       (create_documents chopping_env text_splitter long_text)"
    using h1 by (simp add: list_all_iff)
  have lens: "map length (create_documents chopping_env text_splitter long_text)
                = [1000, 1000, 500]"
    by (simp add: parts)
  have ch: "map (\<lambda>d. metadata d ''chunk'')
         (with_metadata ?md ''uuid-II'' (create_documents chopping_env text_splitter long_text))
       = [Some (MInt 0), Some (MInt 1), Some (MInt 2)]"
    unfolding chunks three by simp
  show ?thesis
    apply (intro conjI)
            apply (rule h1')
           apply (rule h2)
          apply (rule v)
         apply (rule ok)
        apply (rule lens)
       apply (rule all)
      apply (rule ch)
     apply (rule first)
    apply (rule second)
    done
qed

section \<open>Deleting a fund: claims\<close>

lemma delete_one_distinct:
  "distinct (map key xs) \<Longrightarrow>
     delete_one (\<lambda>x. key x = a) xs = filter (\<lambda>x. key x \<noteq> a) xs"
proof (induction xs)
  case Nil
  show ?case by simp
next
  case (Cons x xs)
  show ?case
  proof (cases "key x = a")
    case True
    from Cons.prems have "key x \<notin> set (map key xs)" by simp
    with True have "\<forall>y \<in> set xs. key y \<noteq> a" by (metis image_eqI set_map)
    then have "filter (\<lambda>y. key y \<noteq> a) xs = xs" by (simp add: filter_id_conv)
    with True show ?thesis by simp
  next
    case False
    with Cons show ?thesis by simp
  qed
qed

lemma find_filter_none: "find (\<lambda>x. key x = a) (filter (\<lambda>x. key x \<noteq> a) xs) = None"
  by (simp add: find_None_iff)

lemma get_fund_SomeD:
  assumes "get_fund e s fid = Some f"
  shows "db_connected s" and "ObjectId e fid = Some (fund_oid f)" and "f \<in> set (funds s)"
proof -
  from assms show c: "db_connected s"
    by (auto simp: get_fund_def split: if_splits)
  from assms c obtain object_id where o: "ObjectId e fid = Some object_id"
    and f: "find (\<lambda>g. fund_oid g = object_id) (funds s) = Some f"
    by (auto simp: get_fund_def split: option.splits)
  from f have "fund_oid f = object_id" and "f \<in> set (funds s)"
    by (auto simp: find_Some_iff)
  with o show "ObjectId e fid = Some (fund_oid f)" and "f \<in> set (funds s)" by simp_all
qed

lemma delete_fund_existing:
  assumes "get_fund e s fid = Some f" and "distinct (map fund_oid (funds s))"
  shows "delete_fund e s fid
           = (True, s\<lparr>documents := filter (\<lambda>d. doc_fund_id d \<noteq> fid) (documents s),
                      funds := filter (\<lambda>g. fund_oid g \<noteq> fund_oid f) (funds s)\<rparr>)"
proof -
  note g = get_fund_SomeD [OF assms(1)]
  have ex: "list_ex (\<lambda>g. fund_oid g = fund_oid f) (funds s)"
    using g(3) by (auto simp: list_ex_iff)
  show ?thesis
    using g(1,2) ex
    by (simp add: delete_fund_def Let_def delete_many_def delete_one_distinct [OF assms(2)])
qed

lemma delete_fund_endpoint_existing:
  assumes "get_fund e s fid = Some f"
    and "distinct (map fund_oid (funds s))"
  shows "delete_fund_endpoint e s fid
     = (Inr (''Fund '' @ fid @ '' deleted successfully''),
        s\<lparr>documents := filter (\<lambda>d. doc_fund_id d \<noteq> fid) (documents s),
          funds := filter (\<lambda>g. fund_oid g \<noteq> fund_oid f) (funds s)\<rparr>)"
  by (simp add: delete_fund_endpoint_def assms(1) delete_fund_existing [OF assms(1,2)])

lemma after_delete:
  assumes "ObjectId e fid = Some (fund_oid f)"
    and s': "s' = s\<lparr>documents := filter (\<lambda>d. doc_fund_id d \<noteq> fid) (documents s),
          funds := filter (\<lambda>g. fund_oid g \<noteq> fund_oid f) (funds s)\<rparr>"
  shows "get_fund e s' fid = None"
    and "\<forall>g \<in> set (list_funds s'). fund_oid g \<noteq> fund_oid f"
    and "get_fund_documents s' fid = []"
    and "vectordb s' = vectordb s"
proof -
  show "get_fund e s' fid = None"
    unfolding s' get_fund_def by (simp add: assms(1) find_filter_none)
  show "\<forall>g \<in> set (list_funds s'). fund_oid g \<noteq> fund_oid f"
    unfolding s' list_funds_def by simp
  show "get_fund_documents s' fid = []"
    unfolding s' get_fund_documents_def by simp
  show "vectordb s' = vectordb s"
    unfolding s' by simp
qed

lemma not_found_endpoints:
  assumes "get_fund e s' fid = None"
  shows "delete_fund_endpoint e s' fid = (Inl (fund_not_found fid), s')"
    and "fst (get_fund_endpoint e s' fid) = Inl (fund_not_found fid)"
  using assms by (simp_all add: delete_fund_endpoint_def get_fund_endpoint_def)

text \<open>
  Deleting a fund that \<open>get_fund\<close> finds, in a collection whose identifiers are
  distinct as MongoDB keeps them, answers with success and removes the fund and the
  document records whose \<open>fund_id\<close> is the text of the request; afterwards the fund is
  not listed, reading and deleting it answer 404, and the vector index is as it was.
\<close>

lemma delete_fund_by_request_text:
  assumes "get_fund e s fid = Some f"
    and "distinct (map fund_oid (funds s))"
    and "delete_fund_endpoint e s fid = (r, s')"
  shows "r = Inr (''Fund '' @ fid @ '' deleted successfully'')
    \<and> funds s' = filter (\<lambda>g. fund_oid g \<noteq> fund_oid f) (funds s)
    \<and> documents s' = filter (\<lambda>d. doc_fund_id d \<noteq> fid) (documents s)
    \<and> (\<forall>g \<in> set (list_funds s'). fund_oid g \<noteq> fund_oid f)
    \<and> get_fund_documents s' fid = []
    \<and> get_fund e s' fid = None
    \<and> fst (get_fund_endpoint e s' fid) = Inl (HTTPException 404 (''Fund '' @ fid @ '' not found''))
    \<and> delete_fund_endpoint e s' fid
         = (Inl (HTTPException 404 (''Fund '' @ fid @ '' not found'')), s')
    \<and> vectordb s' = vectordb s"
proof -
  note g = get_fund_SomeD [OF assms(1)]
  from delete_fund_endpoint_existing [OF assms(1,2)] assms(3)
  have r: "r = Inr (''Fund '' @ fid @ '' deleted successfully'')"
    and s': "s' = s\<lparr>documents := filter (\<lambda>d. doc_fund_id d \<noteq> fid) (documents s),
                    funds := filter (\<lambda>g. fund_oid g \<noteq> fund_oid f) (funds s)\<rparr>"
    by simp_all
  note after = after_delete [OF g(2) s']
  note nf = not_found_endpoints [OF after(1), unfolded fund_not_found_def]
  have fs: "funds s' = filter (\<lambda>g. fund_oid g \<noteq> fund_oid f) (funds s)"
    unfolding s' by simp
  have ds: "documents s' = filter (\<lambda>d. doc_fund_id d \<noteq> fid) (documents s)"
    unfolding s' by simp
  show ?thesis
    apply (intro conjI)
            apply (rule r)
           apply (rule fs)
          apply (rule ds)
         apply (rule after(2))
        apply (rule after(3))
       apply (rule after(1))
      apply (rule nf(2))
     apply (rule nf(1))
    apply (rule after(4))
    done
qed

lemma upper_id: "lower ''65F1A2B3C4D5E6F708192A3B'' = ''65f1a2b3c4d5e6f708192a3b''"
  by (simp add: lower_eval)

lemma parse_upper: "bson_object_id ''65F1A2B3C4D5E6F708192A3B'' = Some ''65f1a2b3c4d5e6f708192a3b''"
  by (simp add: bson_object_id_def upper_id hex_digits_def)

text \<open>
  C10. The claim: deleting an existing fund removes the fund and all of its document
  records. The fund is found and deleted by the parsed identifier, the document records
  by equality with the text of the request. A request that spells the identifier of a
  fund in upper case finds the fund, answers success and deletes the fund, and both
  document records of the fund remain.
\<close>

theorem C10_other_spelling_keeps_documents:
  "get_fund hex_env hex_system ''65F1A2B3C4D5E6F708192A3B'' = Some hex_fund
   \<and> delete_fund_endpoint hex_env hex_system ''65F1A2B3C4D5E6F708192A3B''
       = (Inr ''Fund 65F1A2B3C4D5E6F708192A3B deleted successfully'',
          hex_system\<lparr>funds := []\<rparr>)
   \<and> list_funds (hex_system\<lparr>funds := []\<rparr>) = []
   \<and> documents (hex_system\<lparr>funds := []\<rparr>) = hex_documents
   \<and> get_fund_documents (hex_system\<lparr>funds := []\<rparr>) ''65f1a2b3c4d5e6f708192a3b''
       = hex_documents"
  by (simp add: get_fund_def delete_fund_endpoint_def delete_fund_def delete_many_def Let_def
        hex_env_def hex_system_def example_env_def example_system_def parse_upper
        hex_fund_def hex_documents_def list_funds_def get_fund_documents_def)

section \<open>Reading a fund: claims\<close>

lemma update_one_summary:
  "map summary (update_one P (\<lambda>g. g\<lparr>document_count := c\<rparr>) xs) = map summary xs"
  by (induction xs) simp_all

lemma generate_summary_state:
  "snd (generate_summary e s fid f n)
     = (case query e s (summary_query n) fid 10 None of
          Inl err \<Rightarrow> s
        | Inr (generated, sources) \<Rightarrow>
            if generated \<noteq> [] \<and> generated \<noteq> not_enough_information
            then snd (update_fund_summary e s fid generated) else s)"
  by (simp add: generate_summary_def split: sum.splits prod.splits bool.splits)

lemma generate_summary_persists:
  assumes "funds (snd (generate_summary e s fid f n)) \<noteq> funds s"
  shows "\<exists>generated sources.
           query e s (summary_query n) fid 10 None = Inr (generated, sources)
           \<and> generated \<noteq> [] \<and> generated \<noteq> not_enough_information
           \<and> snd (generate_summary e s fid f n) = snd (update_fund_summary e s fid generated)"
proof (cases "query e s (summary_query n) fid 10 None")
  case (Inl err)
  with assms show ?thesis by (simp add: generate_summary_state)
next
  case (Inr p)
  obtain generated sources where p: "p = (generated, sources)" by (cases p)
  show ?thesis
  proof (cases "generated \<noteq> [] \<and> generated \<noteq> not_enough_information")
    case True
    with Inr p show ?thesis by (simp add: generate_summary_state)
  next
    case False
    with Inr p have "snd (generate_summary e s fid f n) = s"
      by (auto simp: generate_summary_state)
    with assms show ?thesis by simp
  qed
qed

lemma endpoint_summaries:
  assumes "get_fund e s fid = Some f0"
  shows "map summary (funds (snd (get_fund_endpoint e s fid)))
           = map summary (funds (snd (summary_phase e s fid f0 (length (get_fund_documents s fid)))))"
proof -
  obtain fo s1 where sp: "summary_phase e s fid f0 (length (get_fund_documents s fid)) = (fo, s1)"
    by (cases "summary_phase e s fid f0 (length (get_fund_documents s fid))")
  show ?thesis
  proof (cases fo)
    case None
    with sp assms show ?thesis
      by (simp add: get_fund_endpoint_def Let_def document_list_def)
  next
    case (Some f)
    with sp assms show ?thesis
      by (simp add: get_fund_endpoint_def Let_def document_list_def update_one_summary)
  qed
qed

lemma example_query:
  "map_sum id fst (query example_env example_system q ''f1'' 10 None) = Inr ''Revenue grew.''"
  by (simp add: query_def context_phase_def Let_def formatted_docs_blocks answer_phase_def
        example_env_def example_system_def)

lemma find_update_one:
  assumes "\<And>x. P (g x) = P x"
  shows "find P (update_one P g xs) = map_option g (find P xs)"
  by (induction xs) (simp_all add: assms)

lemma get_fund_find:
  assumes "get_fund e s fid = Some f"
  shows "find (\<lambda>g. fund_oid g = fund_oid f) (funds s) = Some f"
proof -
  note g = get_fund_SomeD [OF assms]
  from assms g(1,2) show ?thesis by (simp add: get_fund_def)
qed

lemma summary_phase_regenerates:
  assumes g: "get_fund e s fid = Some f0"
    and need: "needs_summary f0 n"
    and q: "query e s (summary_query n) fid 10 None = Inr (generated, sources)"
    and ne: "generated \<noteq> []" "generated \<noteq> not_enough_information"
  shows "summary_phase e s fid f0 n
           = (Some (set_summary generated (clock s) f0),
              s\<lparr>funds := update_one (\<lambda>f. fund_oid f = fund_oid f0)
                             (set_summary generated (clock s)) (funds s)\<rparr>)"
proof -
  note d = get_fund_SomeD [OF g]
  note f = get_fund_find [OF g]
  let ?s1 = "s\<lparr>funds := update_one (\<lambda>f. fund_oid f = fund_oid f0)
                             (set_summary generated (clock s)) (funds s)\<rparr>"
  have up: "update_fund_summary e s fid generated
              = (set_summary generated (clock s) f0 \<noteq> f0, ?s1)"
    using d(1,2) f by (simp add: update_fund_summary_def)
  have "find (\<lambda>f. fund_oid f = fund_oid f0)
          (update_one (\<lambda>f. fund_oid f = fund_oid f0) (set_summary generated (clock s)) (funds s))
        = map_option (set_summary generated (clock s))
            (find (\<lambda>f. fund_oid f = fund_oid f0) (funds s))"
    by (rule find_update_one) (simp add: set_summary_def)
  with f d(1,2) have again: "get_fund e ?s1 fid = Some (set_summary generated (clock s) f0)"
    by (simp add: get_fund_def)
  show ?thesis
  proof (cases "set_summary generated (clock s) f0 = f0")
    case True
    with need q ne up show ?thesis
      by (simp add: summary_phase_def generate_summary_def)
  next
    case False
    with need q ne up again show ?thesis
      by (simp add: summary_phase_def generate_summary_def)
  qed
qed

lemma endpoint_regenerates:
  assumes g: "get_fund e s fid = Some f0"
    and need: "needs_summary f0 (length (get_fund_documents s fid))"
    and q: "query e s (summary_query (length (get_fund_documents s fid))) fid 10 None
              = Inr (generated, sources)"
    and ne: "generated \<noteq> []" "generated \<noteq> not_enough_information"
  shows "map_sum id r_summary (fst (get_fund_endpoint e s fid)) = Inr generated"
    and "map_option summary (get_fund e (snd (get_fund_endpoint e s fid)) fid)
           = Some (Some generated)"
proof -
  note d = get_fund_SomeD [OF g]
  note f = get_fund_find [OF g]
  let ?n = "length (get_fund_documents s fid)"
  let ?f1 = "set_summary generated (clock s) f0"
  let ?fs1 = "update_one (\<lambda>f. fund_oid f = fund_oid f0) (set_summary generated (clock s))
                (funds s)"
  note ph = summary_phase_regenerates [OF g need q ne]
  have oid: "fund_oid ?f1 = fund_oid f0" and sm: "summary ?f1 = Some generated"
    by (simp_all add: set_summary_def)
  have f1: "find (\<lambda>f. fund_oid f = fund_oid f0) ?fs1 = Some ?f1"
    using find_update_one [of "\<lambda>f. fund_oid f = fund_oid f0" "set_summary generated (clock s)"
            "funds s"] f
    by (simp add: set_summary_def)
  have f2: "find (\<lambda>f. fund_oid f = fund_oid f0)
              (update_one (\<lambda>g. fund_oid g = fund_oid f0) (\<lambda>g. g\<lparr>document_count := c\<rparr>) ?fs1)
            = Some (?f1\<lparr>document_count := c\<rparr>)" for c
    using find_update_one [of "\<lambda>f. fund_oid f = fund_oid f0" "\<lambda>g. g\<lparr>document_count := c\<rparr>" ?fs1]
      f1
    by simp
  show "map_sum id r_summary (fst (get_fund_endpoint e s fid)) = Inr generated"
    using g ph sm by (simp add: get_fund_endpoint_def Let_def document_list_def)
  have st: "snd (get_fund_endpoint e s fid)
      = (if stored_count ?f1 \<noteq> int ?n
         then s\<lparr>funds := update_one (\<lambda>g. fund_oid g = fund_oid f0)
                            (\<lambda>g. g\<lparr>document_count := Some (int ?n)\<rparr>) ?fs1\<rparr>
         else s\<lparr>funds := ?fs1\<rparr>)"
    using g ph oid by (simp add: get_fund_endpoint_def Let_def document_list_def)
  show "map_option summary (get_fund e (snd (get_fund_endpoint e s fid)) fid)
           = Some (Some generated)"
    unfolding st using d(1,2) f1 f2 sm
    by (simp add: get_fund_def)
qed

lemma endpoint_keeps:
  assumes g: "get_fund e s fid = Some f0"
    and "\<not> needs_summary f0 (length (get_fund_documents s fid))"
  shows "map summary (funds (snd (get_fund_endpoint e s fid))) = map summary (funds s)"
  using endpoint_summaries [OF g] assms(2) by (simp add: summary_phase_def)

lemma stale_query:
  "map_sum id fst (query example_env stale_system q ''f1'' 10 None) = Inr ''Revenue grew.''"
  by (simp add: query_def context_phase_def Let_def formatted_docs_blocks answer_phase_def
        example_env_def example_system_def stale_system_def)

text \<open>
  C5. The claim has a new summary generated when the stored count differs from the number
  of documents found while that number is positive. The source asks for the stored count
  to be positive: a fund with a summary, a stored count of 0 and one document gets none,
  and a fund with a summary, a stored count of 2 and no document gets one.
\<close>

theorem C5_live_count_counterexample:
  "spec_needs_summary uncounted_fund 1 \<and> \<not> needs_summary uncounted_fund 1
   \<and> summary_phase example_env example_system ''f2'' uncounted_fund 1
        = (Some uncounted_fund, example_system)
   \<and> needs_summary emptied_fund 0 \<and> \<not> spec_needs_summary emptied_fund 0"
  by (simp add: spec_needs_summary_def needs_summary_def stored_count_def summary_phase_def
        uncounted_fund_def emptied_fund_def)

text \<open>
  C5, as amended. A summary is generated exactly when the stored summary is \<open>Empty\<close>, or
  the stored count differs from the number of documents found while the stored count is
  positive; otherwise the read goes on with the fund and the state as they are. The
  generation changes the funds only by storing a generated summary that is not empty and
  is not the sentence for too little information, and a read of a fund changes a stored
  summary only so. A read of a fund that needs no summary leaves every stored summary as
  it is; a read of a fund that needs one, with a generated summary that is not empty and
  is not that sentence, answers with the generated summary and leaves it stored as the
  summary of the fund.
\<close>

theorem C5_summary_regeneration:
  "(needs_summary f n \<longleftrightarrow>
      summary f = Some ''Empty'' \<or> (stored_count f \<noteq> int n \<and> 0 < stored_count f))
   \<and> (\<not> needs_summary f n \<longrightarrow> summary_phase e s fid f n = (Some f, s))
   \<and> (needs_summary f n \<longrightarrow> summary_phase e s fid f n = generate_summary e s fid f n)
   \<and> (funds (snd (generate_summary e s fid f n)) \<noteq> funds s \<longrightarrow>
        (\<exists>generated sources.
           query e s (summary_query n) fid 10 None = Inr (generated, sources)
           \<and> generated \<noteq> [] \<and> generated \<noteq> not_enough_information
           \<and> snd (generate_summary e s fid f n) = snd (update_fund_summary e s fid generated)))
   \<and> (map summary (funds (snd (get_fund_endpoint e s fid))) \<noteq> map summary (funds s) \<longrightarrow>
        (\<exists>f0 generated sources.
           get_fund e s fid = Some f0
           \<and> needs_summary f0 (length (get_fund_documents s fid))
           \<and> query e s (summary_query (length (get_fund_documents s fid))) fid 10 None
                = Inr (generated, sources)
           \<and> generated \<noteq> [] \<and> generated \<noteq> not_enough_information))
   \<and> (get_fund e s fid = Some f0
        \<and> \<not> needs_summary f0 (length (get_fund_documents s fid))
       \<longrightarrow> map summary (funds (snd (get_fund_endpoint e s fid))) = map summary (funds s))
   \<and> (get_fund e s fid = Some f0
        \<and> needs_summary f0 (length (get_fund_documents s fid))
        \<and> query e s (summary_query (length (get_fund_documents s fid))) fid 10 None
             = Inr (generated, sources)
        \<and> generated \<noteq> [] \<and> generated \<noteq> not_enough_information
       \<longrightarrow> map_sum id r_summary (fst (get_fund_endpoint e s fid)) = Inr generated
           \<and> map_option summary (get_fund e (snd (get_fund_endpoint e s fid)) fid)
               = Some (Some generated))"
proof -
  have a: "needs_summary f n \<longleftrightarrow>
      summary f = Some ''Empty'' \<or> (stored_count f \<noteq> int n \<and> 0 < stored_count f)"
    by (simp add: needs_summary_def)
  have b: "\<not> needs_summary f n \<longrightarrow> summary_phase e s fid f n = (Some f, s)"
    by (simp add: summary_phase_def)
  have c: "needs_summary f n \<longrightarrow> summary_phase e s fid f n = generate_summary e s fid f n"
    by (simp add: summary_phase_def)
  have d: "funds (snd (generate_summary e s fid f n)) \<noteq> funds s \<longrightarrow>
        (\<exists>generated sources.
           query e s (summary_query n) fid 10 None = Inr (generated, sources)
           \<and> generated \<noteq> [] \<and> generated \<noteq> not_enough_information
           \<and> snd (generate_summary e s fid f n) = snd (update_fund_summary e s fid generated))"
    using generate_summary_persists by blast
  have e: "map summary (funds (snd (get_fund_endpoint e s fid))) \<noteq> map summary (funds s) \<longrightarrow>
        (\<exists>f0 generated sources.
           get_fund e s fid = Some f0
           \<and> needs_summary f0 (length (get_fund_documents s fid))
           \<and> query e s (summary_query (length (get_fund_documents s fid))) fid 10 None
                = Inr (generated, sources)
           \<and> generated \<noteq> [] \<and> generated \<noteq> not_enough_information)"
  proof
    assume ch: "map summary (funds (snd (get_fund_endpoint e s fid))) \<noteq> map summary (funds s)"
    show "\<exists>f0 generated sources.
           get_fund e s fid = Some f0
           \<and> needs_summary f0 (length (get_fund_documents s fid))
           \<and> query e s (summary_query (length (get_fund_documents s fid))) fid 10 None
                = Inr (generated, sources)
           \<and> generated \<noteq> [] \<and> generated \<noteq> not_enough_information"
    proof (cases "get_fund e s fid")
      case None
      then have "snd (get_fund_endpoint e s fid) = s"
        by (simp add: get_fund_endpoint_def)
      with ch show ?thesis by simp
    next
      case (Some f0)
      let ?n = "length (get_fund_documents s fid)"
      from ch endpoint_summaries [OF Some]
      have ph: "funds (snd (summary_phase e s fid f0 ?n)) \<noteq> funds s" by auto
      then have need: "needs_summary f0 ?n"
        by (auto simp: summary_phase_def split: if_splits)
      with ph have "funds (snd (generate_summary e s fid f0 ?n)) \<noteq> funds s"
        by (simp add: summary_phase_def)
      from generate_summary_persists [OF this] Some need show ?thesis by blast
    qed
  qed
  have k: "get_fund e s fid = Some f0
        \<and> \<not> needs_summary f0 (length (get_fund_documents s fid))
       \<longrightarrow> map summary (funds (snd (get_fund_endpoint e s fid))) = map summary (funds s)"
    using endpoint_keeps by blast
  have r: "get_fund e s fid = Some f0
        \<and> needs_summary f0 (length (get_fund_documents s fid))
        \<and> query e s (summary_query (length (get_fund_documents s fid))) fid 10 None
             = Inr (generated, sources)
        \<and> generated \<noteq> [] \<and> generated \<noteq> not_enough_information
       \<longrightarrow> map_sum id r_summary (fst (get_fund_endpoint e s fid)) = Inr generated
           \<and> map_option summary (get_fund e (snd (get_fund_endpoint e s fid)) fid)
               = Some (Some generated)"
    using endpoint_regenerates by blast
  show ?thesis
    apply (intro conjI)
          apply (rule a)
         apply (rule b)
        apply (rule c)
       apply (rule d)
      apply (rule e)
     apply (rule k)
    apply (rule r)
    done
qed

theorem C5_summary_regeneration_witness:
  "get_fund example_env stale_system ''f1'' = Some stale_fund
   \<and> summary stale_fund = Some ''An old summary.''
   \<and> stored_count stale_fund = 1
   \<and> length (get_fund_documents stale_system ''f1'') = 2
   \<and> needs_summary stale_fund (length (get_fund_documents stale_system ''f1''))
   \<and> map_sum id fst (query example_env stale_system
                        (summary_query (length (get_fund_documents stale_system ''f1'')))
                        ''f1'' 10 None) = Inr ''Revenue grew.''
   \<and> map_sum id r_summary (fst (get_fund_endpoint example_env stale_system ''f1''))
        = Inr ''Revenue grew.''
   \<and> map_option summary
        (get_fund example_env (snd (get_fund_endpoint example_env stale_system ''f1'')) ''f1'')
        = Some (Some ''Revenue grew.'')
   \<and> get_fund example_env uncounted_system ''f2'' = Some uncounted_fund
   \<and> length (get_fund_documents uncounted_system ''f2'') = 1
   \<and> \<not> needs_summary uncounted_fund (length (get_fund_documents uncounted_system ''f2''))
   \<and> map summary (funds (snd (get_fund_endpoint example_env uncounted_system ''f2'')))
        = [Some ''A fund.'']"
proof -
  let ?n = "length (get_fund_documents stale_system ''f1'')"
  have g1: "get_fund example_env stale_system ''f1'' = Some stale_fund"
    by (simp add: get_fund_def example_env_def stale_system_def example_system_def
          stale_fund_def)
  have sm: "summary stale_fund = Some ''An old summary.''"
    by (simp add: stale_fund_def)
  have sc: "stored_count stale_fund = 1"
    by (simp add: stored_count_def stale_fund_def)
  have l1: "?n = 2"
    by (simp add: get_fund_documents_def stale_system_def example_system_def)
  have n1: "needs_summary stale_fund ?n"
    by (simp add: needs_summary_def sc l1)
  note sq = stale_query [of "summary_query ?n"]
  then obtain sources where q: "query example_env stale_system (summary_query ?n) ''f1'' 10 None
      = Inr (''Revenue grew.'', sources)"
    by (cases "query example_env stale_system (summary_query ?n) ''f1'' 10 None") auto
  have ne: "''Revenue grew.'' \<noteq> []" "''Revenue grew.'' \<noteq> not_enough_information"
    by (simp_all add: not_enough_information_def)
  note t1 = C5_summary_regeneration [where e = example_env and s = stale_system
      and fid = "''f1''" and ?f0.0 = stale_fund and generated = "''Revenue grew.''"
      and sources = sources]
  from t1 g1 n1 q ne
  have r1: "map_sum id r_summary (fst (get_fund_endpoint example_env stale_system ''f1''))
        = Inr ''Revenue grew.''"
    and r2: "map_option summary
        (get_fund example_env (snd (get_fund_endpoint example_env stale_system ''f1'')) ''f1'')
        = Some (Some ''Revenue grew.'')"
    by blast+
  have g2: "get_fund example_env uncounted_system ''f2'' = Some uncounted_fund"
    by (simp add: get_fund_def example_env_def uncounted_system_def example_system_def
          uncounted_fund_def)
  have l2: "length (get_fund_documents uncounted_system ''f2'') = 1"
    by (simp add: get_fund_documents_def uncounted_system_def example_system_def)
  have n2: "\<not> needs_summary uncounted_fund (length (get_fund_documents uncounted_system ''f2''))"
    by (simp add: needs_summary_def stored_count_def uncounted_fund_def)
  note t2 = C5_summary_regeneration [where e = example_env and s = uncounted_system
      and fid = "''f2''" and ?f0.0 = uncounted_fund]
  from t2 g2 n2
  have "map summary (funds (snd (get_fund_endpoint example_env uncounted_system ''f2'')))
          = map summary (funds uncounted_system)"
    by blast
  then have r3: "map summary (funds (snd (get_fund_endpoint example_env uncounted_system ''f2'')))
        = [Some ''A fund.'']"
    by (simp add: uncounted_system_def uncounted_fund_def)
  show ?thesis
    apply (intro conjI)
               apply (rule g1)
              apply (rule sm)
             apply (rule sc)
            apply (rule l1)
           apply (rule n1)
          apply (rule sq)
         apply (rule r1)
        apply (rule r2)
       apply (rule g2)
      apply (rule l2)
     apply (rule n2)
    apply (rule r3)
    done
qed

end
